theory Spec2Isabelle
  imports Complex_Main
begin

section \<open>Common modelling conventions\<close>

text \<open>
  The program is Python (pandas, numpy). Integers are unbounded (\<open>int\<close>); floating-point
  numbers are idealised as \<open>real\<close>, so rounding error, overflow and NaN propagation of IEEE
  arithmetic are outside the model. Every exception the modelled code can raise is a value
  of \<open>py_error\<close>, and a function that can raise returns \<open>py_error + 'a\<close>.
\<close>

datatype py_error =
    NameError string
  | KeyError
  | IndexError
  | TypeError
  | ValueError
  | ZeroDivisionError

text \<open>Python's builtin \<open>sum\<close>: starts from 0 and adds from left to right.\<close>

definition py_sum :: "real list \<Rightarrow> real" where
  "py_sum xs = foldl (+) 0 xs"

text \<open>True division of Python floats: a zero divisor raises.\<close>

definition py_div :: "real \<Rightarrow> real \<Rightarrow> py_error + real" where
  "py_div x y = (if y = 0 then Inl ZeroDivisionError else Inr (x / y))"

text \<open>Python's \<open>round(x)\<close>: to the nearest integer, a tie going to the even neighbour.\<close>

definition py_round :: "real \<Rightarrow> int" where
  "py_round x =
     (let f = \<lfloor>x\<rfloor>; d = x - of_int f
      in if d < 1 / 2 then f
         else if 1 / 2 < d then f + 1
         else if even f then f else f + 1)"

text \<open>\<open>round(x, n)\<close> (and \<open>np.round(x, n)\<close>): the same rounding at \<open>n\<close> decimals.\<close>

definition py_round_ndigits :: "real \<Rightarrow> int \<Rightarrow> real" where
  "py_round_ndigits x n =
     (if 0 \<le> n then of_int (py_round (x * 10 ^ nat n)) / 10 ^ nat n
      else of_int (py_round (x / 10 ^ nat (- n))) * 10 ^ nat (- n))"

section \<open>Snapshot aggregation (orderbook\_hdf.py)\<close>

text \<open>
  One row of the order-book table that \<open>calculate_weighted_prices\<close> builds and that the
  later stages read back.
\<close>

record snapshot =
  timestamp :: int
  bid_price :: real
  bid_volume :: real
  ask_price :: real
  ask_volume :: real

text \<open>An order-book level is \<open>[price, volume]\<close>: \<open>order[0]\<close> and \<open>order[1]\<close>.\<close>

type_synonym order = "real \<times> real"

record orderbook =
  bids :: "order list"
  asks :: "order list"

record precision =
  price :: int
  amount :: int

text \<open>
  \<open>OrderBookProcessor.calculate_volume_and_weighted_price\<close>. The conditional expression
  \<open>... / volume if volume else 0\<close> evaluates the division only when \<open>volume\<close> is truthy.
\<close>

definition calculate_volume_and_weighted_price :: "order list \<Rightarrow> py_error + (real \<times> real)" where
  "calculate_volume_and_weighted_price orders =
     (let volume = py_sum (map (\<lambda>order. snd order) orders)
      in if volume \<noteq> 0
         then (case py_div (py_sum (map (\<lambda>order. fst order * snd order) orders)) volume of
                 Inl e \<Rightarrow> Inl e
               | Inr weighted_price \<Rightarrow> Inr (volume, weighted_price))
         else Inr (volume, 0))"

text \<open>
  \<open>OrderBookProcessor.calculate_weighted_prices\<close>: the slices \<open>[:3]\<close> are \<open>take 3\<close>.
\<close>

definition calculate_weighted_prices :: "orderbook \<Rightarrow> precision \<Rightarrow> int \<Rightarrow> py_error + snapshot" where
  "calculate_weighted_prices ob prec ts =
     (case calculate_volume_and_weighted_price (take 3 (bids ob)) of
        Inl e \<Rightarrow> Inl e
      | Inr (bid_vol, bid_weighted_price) \<Rightarrow>
          (case calculate_volume_and_weighted_price (take 3 (asks ob)) of
             Inl e \<Rightarrow> Inl e
           | Inr (ask_vol, ask_weighted_price) \<Rightarrow>
               Inr \<lparr> timestamp = ts,
                     bid_price = py_round_ndigits bid_weighted_price (price prec),
                     bid_volume = py_round_ndigits bid_vol (amount prec),
                     ask_price = py_round_ndigits ask_weighted_price (price prec),
                     ask_volume = py_round_ndigits ask_vol (amount prec) \<rparr>))"

text \<open>The volume-weighted mean the specification describes, over a list of levels.\<close>

definition weighted_mean :: "order list \<Rightarrow> real" where
  "weighted_mean levels =
     (if (\<Sum>l\<leftarrow>levels. snd l) = 0 then 0
      else (\<Sum>l\<leftarrow>levels. fst l * snd l) / (\<Sum>l\<leftarrow>levels. snd l))"

section \<open>Stream synchronisation (process\_data.py)\<close>

record synchronized_data_selector =
  df1 :: "snapshot list"
  df2 :: "snapshot list"
  tolerance :: int
  index1 :: nat
  index2 :: nat
  sync_finished :: bool

text \<open>\<open>SynchronizedDataSelector.__init__\<close>; the default tolerance is 60000 ms.\<close>

definition new_selector :: "snapshot list \<Rightarrow> snapshot list \<Rightarrow> int \<Rightarrow> synchronized_data_selector" where
  "new_selector d1 d2 tolerance_ms =
     \<lparr> df1 = d1, df2 = d2, tolerance = tolerance_ms, index1 = 0, index2 = 0,
       sync_finished = False \<rparr>"

text \<open>\<open>_is_last_row\<close>.\<close>

definition is_last_row :: "nat \<Rightarrow> snapshot list \<Rightarrow> bool" where
  "is_last_row i df = (length df \<le> i + 1)"

text \<open>\<open>_advance_index_with_greater_timestamp\<close>.\<close>

definition advance_index_with_greater_timestamp ::
  "synchronized_data_selector \<Rightarrow> snapshot \<Rightarrow> snapshot \<Rightarrow> synchronized_data_selector" where
  "advance_index_with_greater_timestamp s row1 row2 =
     (if timestamp row2 < timestamp row1 then s\<lparr>index2 := index2 s + 1\<rparr>
      else s\<lparr>index1 := index1 s + 1\<rparr>)"

text \<open>
  What a call of \<open>get_next_row_pair\<close> returns: a pair of rows, the tuple \<open>(None, None)\<close>,
  or the bare \<open>None\<close> of falling off the end of the function when the selector had already
  finished.
\<close>

datatype row_pair = RowPair snapshot snapshot | NonePair | NoneValue

text \<open>
  \<open>SynchronizedDataSelector.get_next_row_pair\<close>. Both rows are read with \<open>iloc\<close> before
  the last-row test; \<open>iloc\<close> raises IndexError on a position outside the frame.
\<close>

function get_next_row_pair ::
  "synchronized_data_selector \<Rightarrow> py_error + (row_pair \<times> synchronized_data_selector)" where
  "get_next_row_pair s =
     (if sync_finished s then Inr (NoneValue, s)
      else if length (df1 s) \<le> index1 s then Inl IndexError
      else if length (df2 s) \<le> index2 s then Inl IndexError
      else if is_last_row (index1 s) (df1 s) \<or> is_last_row (index2 s) (df2 s)
        then Inr (NonePair, s\<lparr>sync_finished := True\<rparr>)
      else if \<bar>timestamp (df1 s ! index1 s) - timestamp (df2 s ! index2 s)\<bar> < tolerance s
        then Inr (RowPair (df1 s ! index1 s) (df2 s ! index2 s),
                  s\<lparr>index1 := index1 s + 1, index2 := index2 s + 1\<rparr>)
      else get_next_row_pair
             (advance_index_with_greater_timestamp s (df1 s ! index1 s) (df2 s ! index2 s)))"
  by pat_completeness auto
termination
  by (relation "measure (\<lambda>s. (length (df1 s) - index1 s) + (length (df2 s) - index2 s))")
     (auto simp: advance_index_with_greater_timestamp_def is_last_row_def)

declare get_next_row_pair.simps [simp del]

text \<open>
  What a call that hands out a pair has done; the termination of the consumer loop rests
  on the two cursors having advanced.
\<close>

lemma get_next_row_pair_RowPair:
  assumes "get_next_row_pair s = Inr (RowPair a b, s')"
  shows "df1 s' = df1 s \<and> df2 s' = df2 s \<and> tolerance s' = tolerance s \<and> \<not> sync_finished s'
       \<and> index1 s < index1 s' \<and> index1 s' < length (df1 s)
       \<and> index2 s < index2 s' \<and> index2 s' < length (df2 s)
       \<and> \<bar>timestamp a - timestamp b\<bar> < tolerance s
       \<and> a \<in> set (df1 s) \<and> b \<in> set (df2 s)"
  using assms
proof (induction s rule: get_next_row_pair.induct)
  case (1 s)
  show ?case
  proof (cases "sync_finished s \<or> length (df1 s) \<le> index1 s \<or> length (df2 s) \<le> index2 s
                \<or> is_last_row (index1 s) (df1 s) \<or> is_last_row (index2 s) (df2 s)")
    case True
    with "1.prems" show ?thesis
      by (auto simp: get_next_row_pair.simps [of s] split: if_splits)
  next
    case guard: False
    show ?thesis
    proof (cases "\<bar>timestamp (df1 s ! index1 s) - timestamp (df2 s ! index2 s)\<bar> < tolerance s")
      case True
      with guard "1.prems" show ?thesis
        by (auto simp: get_next_row_pair.simps [of s] is_last_row_def)
    next
      case False
      let ?t = "advance_index_with_greater_timestamp s (df1 s ! index1 s) (df2 s ! index2 s)"
      from guard False "1.prems" have "get_next_row_pair ?t = Inr (RowPair a b, s')"
        by (simp add: get_next_row_pair.simps [of s])
      with "1.IH" guard False have
        "df1 s' = df1 ?t \<and> df2 s' = df2 ?t \<and> tolerance s' = tolerance ?t \<and> \<not> sync_finished s'
       \<and> index1 ?t < index1 s' \<and> index1 s' < length (df1 ?t)
       \<and> index2 ?t < index2 s' \<and> index2 s' < length (df2 ?t)
       \<and> \<bar>timestamp a - timestamp b\<bar> < tolerance ?t
       \<and> a \<in> set (df1 ?t) \<and> b \<in> set (df2 ?t)"
        by simp
      then show ?thesis
        by (auto simp: advance_index_with_greater_timestamp_def split: if_splits)
    qed
  qed
qed

text \<open>
  The consumer loop of \<open>refine_results\<close> (\<open>while not selector.finished: row1, row2 =
  selector.get_next_row_pair(); if row1 is None or row2 is None: break; ...\<close>), collecting
  in order the row pairs the selector hands out. Unpacking a bare \<open>None\<close> raises TypeError.
\<close>

function emitted_pairs ::
  "synchronized_data_selector \<Rightarrow> (snapshot \<times> snapshot) list \<Rightarrow>
     py_error + (snapshot \<times> snapshot) list" where
  "emitted_pairs s acc =
     (if sync_finished s then Inr acc
      else (case get_next_row_pair s of
              Inl e \<Rightarrow> Inl e
            | Inr (NoneValue, s') \<Rightarrow> Inl TypeError
            | Inr (NonePair, s') \<Rightarrow> Inr acc
            | Inr (RowPair row1 row2, s') \<Rightarrow> emitted_pairs s' (acc @ [(row1, row2)])))"
  by pat_completeness auto
termination
  by (relation "measure (\<lambda>(s, acc). length (df1 s) - index1 s)")
     (auto dest!: get_next_row_pair_RowPair)

declare emitted_pairs.simps [simp del]

text \<open>The synchroniser run on two frames with a tolerance.\<close>

definition synchronize :: "snapshot list \<Rightarrow> snapshot list \<Rightarrow> int \<Rightarrow>
    py_error + (snapshot \<times> snapshot) list" where
  "synchronize d1 d2 tolerance_ms = emitted_pairs (new_selector d1 d2 tolerance_ms) []"

section \<open>Profitability (profitability\_calculator.py)\<close>

text \<open>
  A row handed to the calculator: the five columns and the \<open>name\<close> attribute that
  \<open>profitability_calculator\<close> splits into symbol, base and quote.
\<close>

record series = snapshot +
  name :: string

text \<open>
  An exchange object of the external library \<open>ccxt\<close>, reduced to what the calculator reads:
  \<open>fees["trading"]["taker"]\<close> and the table \<open>fees["funding"]["withdraw"]\<close>. A table that is
  missing altogether behaves like an empty one, since \<open>get_withdrawal_fee\<close> catches every
  KeyError of the lookup chain.
\<close>

record exchange =
  taker :: real
  withdraw :: "string \<rightharpoonup> real"

record arbitrage_calculator =
  exchanges :: "string \<rightharpoonup> exchange"
  euro_values :: "string \<rightharpoonup> real"
  btc_values :: "string \<rightharpoonup> real"

text \<open>
  The functions of this module read three names that are neither parameters nor locals:
  \<open>exchange_name1\<close> and \<open>exchange_name2\<close> in \<open>profitability_calculator\<close>, and \<open>self\<close> in
  \<open>compare_arbitrage_profitability\<close> (declared without a \<open>self\<close> parameter). Python resolves
  them in the module's global namespace when the line runs and raises NameError when they
  are unbound. The namespace is a parameter of the model; \<open>module_globals\<close> is the namespace
  as the module itself leaves it, with none of the three bound.
\<close>

record global_names =
  g_self :: "arbitrage_calculator option"
  g_exchange_name1 :: "string option"
  g_exchange_name2 :: "string option"

definition module_globals :: global_names where
  "module_globals = \<lparr> g_self = None, g_exchange_name1 = None, g_exchange_name2 = None \<rparr>"

definition lookup_name :: "string \<Rightarrow> 'a option \<Rightarrow> py_error + 'a" where
  "lookup_name n binding = (case binding of None \<Rightarrow> Inl (NameError n) | Some v \<Rightarrow> Inr v)"

text \<open>Subscripting a dictionary: a missing key raises KeyError.\<close>

definition lookup_key :: "('k \<rightharpoonup> 'v) \<Rightarrow> 'k \<Rightarrow> py_error + 'v" where
  "lookup_key d k = (case d k of None \<Rightarrow> Inl KeyError | Some v \<Rightarrow> Inr v)"

text \<open>Sequencing of statements that can raise: the first exception ends the function.\<close>

definition bind_err :: "py_error + 'a \<Rightarrow> ('a \<Rightarrow> py_error + 'b) \<Rightarrow> py_error + 'b" where
  "bind_err m f = (case m of Inl e \<Rightarrow> Inl e | Inr x \<Rightarrow> f x)"

text \<open>The conditional expression \<open>f(x) if x is not None else None\<close>.\<close>

definition if_not_None :: "'a option \<Rightarrow> ('a \<Rightarrow> py_error + 'b) \<Rightarrow> py_error + 'b option" where
  "if_not_None x f =
     (case x of
        None \<Rightarrow> Inr None
      | Some v \<Rightarrow> (case f v of Inl e \<Rightarrow> Inl e | Inr y \<Rightarrow> Inr (Some y)))"

text \<open>\<open>str.split(sep)\<close> for a one-character separator.\<close>

fun split_on :: "char \<Rightarrow> string \<Rightarrow> string list" where
  "split_on c [] = [[]]"
| "split_on c (x # xs) =
     (if x = c then [] # split_on c xs
      else (case split_on c xs of
              [] \<Rightarrow> [[x]]
            | w # ws \<Rightarrow> (x # w) # ws))"

text \<open>
  Division of numpy floats does not raise: a zero divisor gives \<open>inf\<close>, \<open>-inf\<close> or \<open>nan\<close>
  (with a warning). The values the calculator divides come from table rows, so they are
  numpy floats; \<open>NotFinite\<close> stands for the three non-finite results.
\<close>

datatype np_float = Finite real | NotFinite

definition np_div :: "real \<Rightarrow> real \<Rightarrow> np_float" where
  "np_div x y = (if y = 0 then NotFinite else Finite (x / y))"

definition np_times :: "np_float \<Rightarrow> real \<Rightarrow> np_float" where
  "np_times x k = (case x of Finite v \<Rightarrow> Finite (v * k) | NotFinite \<Rightarrow> NotFinite)"

text \<open>The one-row table \<open>profitability_calculator\<close> returns.\<close>

record profitability =
  max_initial_amount_euro :: real
  max_initial_amount_btc :: real
  gross_profit_euro :: real
  gross_profit_btc :: real
  percent_gross_profit :: np_float
  net_profit_euro :: "real option"
  net_profit_btc :: "real option"
  percent_net_profit :: "np_float option"
  buy_exchange :: string
  sell_exchange :: string
  result_timestamp :: int

definition convert_to_euro :: "arbitrage_calculator \<Rightarrow> real \<Rightarrow> string \<Rightarrow> py_error + real" where
  "convert_to_euro self initial_quote_paid quote =
     (case euro_values self quote of
        None \<Rightarrow> Inl KeyError
      | Some v \<Rightarrow> Inr (initial_quote_paid * v))"

definition convert_to_btc :: "arbitrage_calculator \<Rightarrow> real \<Rightarrow> string \<Rightarrow> py_error + real" where
  "convert_to_btc self initial_quote_paid quote =
     (if quote = ''BTC'' then Inr initial_quote_paid
      else (case btc_values self quote of
              None \<Rightarrow> Inl KeyError
            | Some v \<Rightarrow> Inr (initial_quote_paid * v)))"

text \<open>\<open>get_withdrawal_fee\<close>: a KeyError anywhere in the lookup becomes \<open>None\<close>.\<close>

definition get_withdrawal_fee :: "arbitrage_calculator \<Rightarrow> string \<Rightarrow> string \<Rightarrow> real option" where
  "get_withdrawal_fee self exchange_name currency =
     (case exchanges self exchange_name of
        None \<Rightarrow> None
      | Some ex \<Rightarrow> withdraw ex currency)"

text \<open>Lines 103 to 105 of \<open>profitability_calculator\<close>: the volume of the trade.\<close>

definition max_volume :: "'a snapshot_scheme \<Rightarrow> 'b snapshot_scheme \<Rightarrow> real" where
  "max_volume df_exchange1 df_exchange2 =
     (let volume_exchange1 = ask_volume df_exchange1;
          volume_exchange2 = bid_volume df_exchange2
      in min volume_exchange1 volume_exchange2)"

definition calculate_trade_amounts ::
  "'a snapshot_scheme \<Rightarrow> 'b snapshot_scheme \<Rightarrow> real \<Rightarrow> real \<Rightarrow> real \<Rightarrow> real \<times> real" where
  "calculate_trade_amounts df_exchange1 df_exchange2 max_vol
       transaction_fee_exchange1 transaction_fee_exchange2 =
     (let ask_price_exchange1 = ask_price df_exchange1;
          bid_price_exchange2 = bid_price df_exchange2;
          initial_quote_paid = max_vol * ask_price_exchange1;
          initial_base_received = max_vol * (1 - transaction_fee_exchange1);
          quote_gained =
            initial_base_received * bid_price_exchange2 * (1 - transaction_fee_exchange2)
      in (initial_quote_paid, quote_gained))"

text \<open>
  \<open>adjust_for_withdrawal\<close>. Its result is a Python value that \<open>calculate_profits\<close> tests
  against \<open>None\<close>, hence the option type; both branches of the source return a number.
\<close>

definition adjust_for_withdrawal :: "real \<Rightarrow> real option \<Rightarrow> real option" where
  "adjust_for_withdrawal quote_gained withdrawal_fee_exchange2 =
     (case withdrawal_fee_exchange2 of
        Some fee \<Rightarrow> Some (quote_gained - fee)
      | None \<Rightarrow> Some quote_gained)"

definition calculate_profits ::
  "real \<Rightarrow> real \<Rightarrow> real option \<Rightarrow> real \<times> np_float \<times> real option \<times> np_float option" where
  "calculate_profits initial_quote_paid quote_gained quote_gained_after_withdrawal =
     (let gross_profit = quote_gained - initial_quote_paid;
          percent_gross = np_times (np_div gross_profit initial_quote_paid) 100
      in (case quote_gained_after_withdrawal of
            Some after_withdrawal \<Rightarrow>
              (let net_profit = after_withdrawal - initial_quote_paid;
                   percent_net = np_times (np_div net_profit initial_quote_paid) 100
               in (gross_profit, percent_gross, Some net_profit, Some percent_net))
          | None \<Rightarrow> (gross_profit, percent_gross, None, None)))"

text \<open>
  \<open>profitability_calculator\<close>, statement by statement. The parameters \<open>exchange_obj1\<close> and
  \<open>exchange_obj2\<close> are overwritten at lines 94 and 95 before they are read.
\<close>

definition profitability_calculator ::
  "global_names \<Rightarrow> arbitrage_calculator \<Rightarrow> series \<Rightarrow> series \<Rightarrow> exchange \<Rightarrow> exchange \<Rightarrow>
     py_error + profitability" where
  "profitability_calculator g self df_exchange1 df_exchange2 exchange_obj1 exchange_obj2 =
     (let ts = (timestamp df_exchange1 + timestamp df_exchange2) div 2;
          symbol = hd (split_on CHR ''_'' (name df_exchange1));
          parts = split_on CHR ''/'' symbol
      in if length parts \<noteq> 2 then Inl ValueError
         else
           (let base = parts ! 0; quote = parts ! 1 in
            bind_err (lookup_name ''exchange_name1'' (g_exchange_name1 g)) (\<lambda>exchange_name1.
            bind_err (lookup_key (exchanges self) exchange_name1) (\<lambda>obj1.
            bind_err (lookup_name ''exchange_name2'' (g_exchange_name2 g)) (\<lambda>exchange_name2.
            bind_err (lookup_key (exchanges self) exchange_name2) (\<lambda>obj2.
              (let transaction_fee_exchange1 = taker obj1;
                   transaction_fee_exchange2 = taker obj2;
                   withdrawal_fee_exchange1 = get_withdrawal_fee self exchange_name1 base;
                   withdrawal_fee_exchange2 = get_withdrawal_fee self exchange_name2 quote;
                   max_vol = max_volume df_exchange1 df_exchange2;
                   amounts = calculate_trade_amounts df_exchange1 df_exchange2 max_vol
                               transaction_fee_exchange1 transaction_fee_exchange2;
                   initial_quote_paid = fst amounts;
                   quote_gained = snd amounts;
                   quote_gained_after_withdrawal =
                     adjust_for_withdrawal quote_gained withdrawal_fee_exchange2;
                   profits =
                     calculate_profits initial_quote_paid quote_gained
                       quote_gained_after_withdrawal;
                   gross_profit = fst profits;
                   percent_gross = fst (snd profits);
                   net_profit = fst (snd (snd profits));
                   percent_net = snd (snd (snd profits))
               in
               bind_err (convert_to_euro self gross_profit quote) (\<lambda>gross_euro.
               bind_err (convert_to_btc self gross_profit quote) (\<lambda>gross_btc.
               bind_err (if_not_None net_profit (\<lambda>n. convert_to_euro self n quote)) (\<lambda>net_euro.
               bind_err (if_not_None net_profit (\<lambda>n. convert_to_btc self n quote)) (\<lambda>net_btc.
               bind_err (convert_to_euro self initial_quote_paid quote) (\<lambda>initial_euro.
               bind_err (convert_to_btc self initial_quote_paid quote) (\<lambda>initial_btc.
                 Inr \<lparr> max_initial_amount_euro = initial_euro,
                       max_initial_amount_btc = initial_btc,
                       gross_profit_euro = gross_euro,
                       gross_profit_btc = gross_btc,
                       percent_gross_profit = percent_gross,
                       net_profit_euro = net_euro,
                       net_profit_btc = net_btc,
                       percent_net_profit = percent_net,
                       buy_exchange = exchange_name1,
                       sell_exchange = exchange_name2,
                       result_timestamp = ts \<rparr>)))))))))))))"

text \<open>
  \<open>compare_arbitrage_profitability\<close>, called with its four declared parameters: \<open>self\<close> is
  a global name here, looked up when the first call is made. (The call in \<open>refine_results\<close>
  goes through an instance and so passes five arguments, which Python rejects with
  TypeError before the body runs.)
\<close>

definition compare_arbitrage_profitability ::
  "global_names \<Rightarrow> series \<Rightarrow> series \<Rightarrow> exchange \<Rightarrow> exchange \<Rightarrow> py_error + profitability" where
  "compare_arbitrage_profitability g df_exchange1 df_exchange2 exchange_obj1 exchange_obj2 =
     bind_err (lookup_name ''self'' (g_self g)) (\<lambda>self.
     bind_err (profitability_calculator g self df_exchange1 df_exchange2
                 exchange_obj1 exchange_obj2) (\<lambda>result1.
     bind_err (profitability_calculator g self df_exchange2 df_exchange1
                 exchange_obj2 exchange_obj1) (\<lambda>result2.
       Inr (if gross_profit_euro result2 < gross_profit_euro result1
            then result1 else result2))))"

section \<open>Backtesting (arbitrage\_backtester.py)\<close>

text \<open>
  A row of the refined table as \<open>backtest_results\<close> reads it: the columns \<open>timestamp\<close>,
  \<open>net_profit_euro\<close> and \<open>max_initial_amount\<close>.
\<close>

record refined_row =
  row_timestamp :: int
  row_net_profit_euro :: real
  row_max_initial_amount :: real

text \<open>The table with its \<open>name\<close> attribute; \<open>df.loc[i]\<close> is the \<open>i\<close>-th element of \<open>rows\<close>.\<close>

record dataframe =
  df_name :: string
  rows :: "refined_row list"

record data_selector =
  full_dataframe :: "refined_row list"
  finished :: bool
  index :: nat
  row :: "refined_row option"

text \<open>\<open>DataSelector.__init__\<close>.\<close>

definition new_data_selector :: "refined_row list \<Rightarrow> data_selector" where
  "new_data_selector df = \<lparr> full_dataframe = df, finished = False, index = 0, row = None \<rparr>"

text \<open>\<open>DataSelector.get_next_row\<close>; \<open>loc\<close> raises KeyError for a label the table lacks.\<close>

definition get_next_row :: "data_selector \<Rightarrow> py_error + data_selector" where
  "get_next_row sel =
     (if length (full_dataframe sel) \<le> index sel then Inl KeyError
      else
        (let sel1 = sel\<lparr>row := Some (full_dataframe sel ! index sel)\<rparr>
         in if length (full_dataframe sel1) \<le> index sel1 + 2
            then Inr (sel1\<lparr>finished := True\<rparr>)
            else Inr (sel1\<lparr>index := index sel1 + 1\<rparr>)))"

text \<open>
  The loop of \<open>DataSelector.get_next_row_after_time\<close>. Subscripting \<open>self.row\<close> while it
  is still \<open>None\<close> raises TypeError.
\<close>

function after_time_loop :: "int \<Rightarrow> data_selector \<Rightarrow> py_error + data_selector" where
  "after_time_loop final_time sel =
     (case row sel of
        None \<Rightarrow> Inl TypeError
      | Some r \<Rightarrow>
          if real_of_int (row_timestamp r) / 1000 < real_of_int final_time
          then (case get_next_row sel of
                  Inl e \<Rightarrow> Inl e
                | Inr sel' \<Rightarrow> if finished sel' then Inr sel' else after_time_loop final_time sel')
          else Inr sel)"
  by pat_completeness auto
termination
  by (relation "measure (\<lambda>(final_time, sel). length (full_dataframe sel) - index sel)")
     (auto simp: get_next_row_def Let_def split: if_splits)

declare after_time_loop.simps [simp del]

definition get_next_row_after_time :: "data_selector \<Rightarrow> int \<Rightarrow> py_error + data_selector" where
  "get_next_row_after_time sel time_step =
     (case row sel of
        None \<Rightarrow> Inl TypeError
      | Some r \<Rightarrow>
          (let initial_time = py_round (real_of_int (row_timestamp r) / 1000);
               final_time = initial_time + time_step
           in after_time_loop final_time sel))"

text \<open>The constants at the head of \<open>backtest_results\<close>.\<close>

definition max_trade_volume :: real where
  "max_trade_volume = 1000"

definition waiting_time_minutes :: int where
  "waiting_time_minutes = 90"

definition waiting_time :: int where
  "waiting_time = waiting_time_minutes * 60"

definition minimum_profit :: real where
  "minimum_profit = 0"

text \<open>The dictionary \<open>profits_over_time\<close> while the loop runs.\<close>

record profits_over_time =
  profit :: "real list"
  time :: "int list"
  cumulative_profit :: real

text \<open>The returned dictionary: \<open>time\<close> now holds elapsed minutes.\<close>

record backtest_output =
  out_profit :: "real list"
  out_time :: "real list"
  out_cumulative_profit :: real

text \<open>Line 77: the time of a row, in whole seconds.\<close>

definition time_of_result :: "refined_row \<Rightarrow> int" where
  "time_of_result r = py_round (real_of_int (row_timestamp r) / 1000)"

text \<open>Lines 79 to 84: the profit of a row after the amount is capped.\<close>

definition capped_profit :: "refined_row \<Rightarrow> real" where
  "capped_profit r =
     (let net_profit = row_net_profit_euro r;
          max_initial_amount = row_max_initial_amount r;
          max_initial_amount' =
            (if max_trade_volume < max_initial_amount then max_trade_volume
             else max_initial_amount)
      in net_profit * max_initial_amount')"

text \<open>One pass through the body of the \<open>while\<close> loop (lines 76 to 91).\<close>

definition loop_body ::
  "data_selector \<times> profits_over_time \<Rightarrow> py_error + (data_selector \<times> profits_over_time)" where
  "loop_body st =
     (case row (fst st) of
        None \<Rightarrow> Inl TypeError
      | Some r \<Rightarrow>
          (let pot = (snd st)\<lparr>time := time (snd st) @ [time_of_result r]\<rparr>;
               net_profit = capped_profit r
           in if minimum_profit < net_profit
              then bind_err (get_next_row_after_time (fst st) waiting_time) (\<lambda>sel'.
                     Inr (sel', pot\<lparr>profit := profit pot @ [net_profit],
                                     cumulative_profit := cumulative_profit pot + net_profit\<rparr>))
              else bind_err (get_next_row (fst st)) (\<lambda>sel'. Inr (sel', pot))))"

text \<open>Facts the termination of the scanning loop rests on.\<close>

lemma py_round_bounds: "x - 1 < real_of_int (py_round x) \<and> real_of_int (py_round x) \<le> x + 1"
  unfolding py_round_def Let_def by (auto; linarith)

lemma py_round_ge_int: "real_of_int n \<le> x \<Longrightarrow> n \<le> py_round x"
  unfolding py_round_def Let_def by (auto simp: le_floor_iff; linarith)

lemma get_next_row_cases:
  assumes "get_next_row sel = Inr sel'"
  shows "full_dataframe sel' = full_dataframe sel
       \<and> index sel < length (full_dataframe sel)
       \<and> row sel' = Some (full_dataframe sel ! index sel)
       \<and> (if length (full_dataframe sel) \<le> index sel + 2
           then finished sel' \<and> index sel' = index sel
           else finished sel' = finished sel \<and> index sel' = index sel + 1)"
  using assms by (auto simp: get_next_row_def Let_def split: if_splits)

lemma after_time_loop_progress:
  assumes "after_time_loop final_time sel = Inr sel'" and "\<not> finished sel'"
  shows "full_dataframe sel' = full_dataframe sel \<and> index sel \<le> index sel'
       \<and> (index sel < length (full_dataframe sel) \<longrightarrow> index sel' < length (full_dataframe sel))"
  using assms
proof (induction final_time sel rule: after_time_loop.induct)
  case (1 final_time sel)
  from "1.prems" obtain r where r: "row sel = Some r"
    by (cases "row sel") (simp_all add: after_time_loop.simps [of final_time sel])
  show ?case
  proof (cases "real_of_int (row_timestamp r) / 1000 < real_of_int final_time")
    case False
    with r "1.prems" show ?thesis by (simp add: after_time_loop.simps [of final_time sel])
  next
    case True
    with r "1.prems" obtain sel1 where g: "get_next_row sel = Inr sel1"
      by (cases "get_next_row sel") (simp_all add: after_time_loop.simps [of final_time sel])
    from True r g "1.prems" have nf: "\<not> finished sel1"
      by (auto simp: after_time_loop.simps [of final_time sel])
    with True r g "1.prems" have a: "after_time_loop final_time sel1 = Inr sel'"
      by (simp add: after_time_loop.simps [of final_time sel])
    note c = get_next_row_cases [OF g]
    from "1.IH" [OF r True g nf a "1.prems"(2)] c nf show ?thesis
      by (auto split: if_splits)
  qed
qed

lemma get_next_row_after_time_progress:
  assumes "get_next_row_after_time sel time_step = Inr sel'" and "\<not> finished sel'"
    and "1 \<le> time_step"
  shows "full_dataframe sel' = full_dataframe sel \<and> index sel < index sel'
       \<and> index sel' < length (full_dataframe sel)"
proof -
  from assms(1) obtain r where r: "row sel = Some r"
    by (cases "row sel") (simp_all add: get_next_row_after_time_def)
  let ?f = "py_round (real_of_int (row_timestamp r) / 1000) + time_step"
  from assms(1) r have a: "after_time_loop ?f sel = Inr sel'"
    by (simp add: get_next_row_after_time_def Let_def)
  have lt: "real_of_int (row_timestamp r) / 1000 < real_of_int ?f"
    using py_round_bounds [of "real_of_int (row_timestamp r) / 1000"] assms(3) by simp
  with r a obtain sel1 where g: "get_next_row sel = Inr sel1"
    by (cases "get_next_row sel") (simp_all add: after_time_loop.simps [of ?f sel])
  from lt r g a assms(2) have nf: "\<not> finished sel1"
    by (auto simp: after_time_loop.simps [of ?f sel])
  with lt r g a have a1: "after_time_loop ?f sel1 = Inr sel'"
    by (simp add: after_time_loop.simps [of ?f sel])
  from after_time_loop_progress [OF a1 assms(2)] get_next_row_cases [OF g] nf
  show ?thesis by (auto split: if_splits)
qed

definition scan_measure :: "data_selector \<times> profits_over_time \<Rightarrow> nat" where
  "scan_measure st =
     (if finished (fst st) then 0
      else Suc (length (full_dataframe (fst st)) - index (fst st)))"

lemma loop_body_decreases:
  assumes "loop_body st = Inr st'" and "\<not> finished (fst st)"
  shows "scan_measure st' < scan_measure st"
proof (cases "finished (fst st')")
  case True
  with assms(2) show ?thesis by (simp add: scan_measure_def)
next
  case False
  from assms(1) obtain r where r: "row (fst st) = Some r"
    by (cases "row (fst st)") (simp_all add: loop_body_def)
  have "full_dataframe (fst st') = full_dataframe (fst st) \<and> index (fst st) < index (fst st')
       \<and> index (fst st') < length (full_dataframe (fst st))"
  proof (cases "minimum_profit < capped_profit r")
    case True
    with assms(1) r have "get_next_row_after_time (fst st) waiting_time = Inr (fst st')"
      by (auto simp: loop_body_def Let_def bind_err_def split: sum.splits)
    from get_next_row_after_time_progress [OF this False] show ?thesis
      by (simp add: waiting_time_def waiting_time_minutes_def)
  next
    case np: False
    with assms(1) r have "get_next_row (fst st) = Inr (fst st')"
      by (auto simp: loop_body_def Let_def bind_err_def split: sum.splits)
    from get_next_row_cases [OF this] False assms(2) show ?thesis
      by (auto split: if_splits)
  qed
  with False assms(2) show ?thesis by (auto simp: scan_measure_def)
qed

text \<open>The \<open>while not data_row_selector.finished\<close> loop.\<close>

function backtest_loop ::
  "data_selector \<times> profits_over_time \<Rightarrow> py_error + (data_selector \<times> profits_over_time)" where
  "backtest_loop st =
     (if finished (fst st) then Inr st
      else (case loop_body st of
              Inl e \<Rightarrow> Inl e
            | Inr st' \<Rightarrow> backtest_loop st'))"
  by pat_completeness auto
termination
  by (relation "measure scan_measure") (auto dest: loop_body_decreases)

declare backtest_loop.simps [simp del]

text \<open>
  \<open>convert_time_to_minutes\<close>: \<open>time_list[0]\<close> raises IndexError on an empty list;
  \<open>np.round(..., 2)\<close> rounds each quotient to two decimals.
\<close>

definition convert_time_to_minutes :: "int list \<Rightarrow> py_error + real list" where
  "convert_time_to_minutes time_list =
     (case time_list of
        [] \<Rightarrow> Inl IndexError
      | t0 # _ \<Rightarrow> Inr (map (\<lambda>t. py_round_ndigits (real_of_int (t - t0) / 60) 2) time_list))"

text \<open>
  Line 96 calls \<open>convert_seconds_to_minutes\<close>, a name that is neither a local nor a
  parameter, so Python looks it up among the module's globals when the line runs. The
  model takes that namespace as a parameter: a map from names to the callables on time
  lists bound to them. \<open>backtester_globals\<close> is the namespace as the module defines it; its
  only function on time lists is \<open>convert_time_to_minutes\<close>.
\<close>

type_synonym callable_names = "string \<rightharpoonup> (int list \<Rightarrow> py_error + real list)"

definition backtester_globals :: callable_names where
  "backtester_globals = [''convert_time_to_minutes'' \<mapsto> convert_time_to_minutes]"

text \<open>Subscripting a list: \<open>xs[i]\<close> for \<open>i \<ge> 0\<close>, and \<open>xs[-1]\<close>.\<close>

definition py_index :: "'a list \<Rightarrow> nat \<Rightarrow> py_error + 'a" where
  "py_index xs i = (if i < length xs then Inr (xs ! i) else Inl IndexError)"

definition py_last :: "'a list \<Rightarrow> py_error + 'a" where
  "py_last xs = (if xs = [] then Inl IndexError else Inr (last xs))"

text \<open>
  The scanning part of \<open>backtest_results\<close> (lines 71 to 91): the first \<open>get_next_row\<close> and
  the loop.
\<close>

definition scan :: "refined_row list \<Rightarrow> py_error + (data_selector \<times> profits_over_time)" where
  "scan df =
     bind_err (get_next_row (new_data_selector df)) (\<lambda>sel.
       backtest_loop (sel, \<lparr> profit = [], time = [], cumulative_profit = 0 \<rparr>))"

text \<open>\<open>backtest_results\<close>; the two logging calls have no effect on the result.\<close>

definition backtest_results :: "callable_names \<Rightarrow> dataframe \<Rightarrow> nat \<Rightarrow> py_error + backtest_output" where
  "backtest_results g df direction =
     bind_err (py_index (split_on CHR ''_'' (df_name df)) (2 + direction)) (\<lambda>buy_exchange.
     bind_err (scan (rows df)) (\<lambda>st.
     bind_err (lookup_name ''convert_seconds_to_minutes'' (g ''convert_seconds_to_minutes''))
       (\<lambda>convert_seconds_to_minutes.
     bind_err (convert_seconds_to_minutes (time (snd st))) (\<lambda>minutes.
     bind_err (py_last minutes) (\<lambda>minutes_elapsed.
     bind_err (py_div 1440 minutes_elapsed) (\<lambda>factor.
       Inr \<lparr> out_profit = profit (snd st),
             out_time = minutes,
             out_cumulative_profit = cumulative_profit (snd st) * factor \<rparr>))))))"

text \<open>
  The states the loop passes through at its head, for the statement of the cooldown
  property: \<open>scan_step\<close> is one pass through the body from a state that has not finished,
  \<open>scan_reaches df\<close> holds for the states the scan of \<open>df\<close> reaches.
\<close>

definition scan_step ::
  "data_selector \<times> profits_over_time \<Rightarrow> data_selector \<times> profits_over_time \<Rightarrow> bool" where
  "scan_step st st' = (\<not> finished (fst st) \<and> loop_body st = Inr st')"

inductive scan_reaches ::
  "refined_row list \<Rightarrow> data_selector \<times> profits_over_time \<Rightarrow> bool" for df where
  first_row: "get_next_row (new_data_selector df) = Inr sel \<Longrightarrow>
     scan_reaches df (sel, \<lparr> profit = [], time = [], cumulative_profit = 0 \<rparr>)"
| next_pass: "scan_reaches df st \<Longrightarrow> scan_step st st' \<Longrightarrow> scan_reaches df st'"

text \<open>
  The selector stands on a row it has read and can still advance: the state of the scanning
  loop at its head while it has not finished.
\<close>

definition on_row :: "data_selector \<Rightarrow> bool" where
  "on_row sel =
     (1 \<le> index sel \<and> index sel + 1 < length (full_dataframe sel)
      \<and> row sel = Some (full_dataframe sel ! (index sel - 1)))"

section \<open>Example data\<close>

text \<open>Rows, tables and a calculator for the concrete instances of the claims.\<close>

definition snapshot_at :: "int \<Rightarrow> snapshot" where
  "snapshot_at t =
     \<lparr> timestamp = t, bid_price = 0, bid_volume = 0, ask_price = 0, ask_volume = 0 \<rparr>"

definition example_exchange :: exchange where
  "example_exchange = \<lparr> taker = 0, withdraw = Map.empty \<rparr>"

definition example_calculator :: arbitrage_calculator where
  "example_calculator =
     \<lparr> exchanges = [''kraken'' \<mapsto> example_exchange, ''bitstamp'' \<mapsto> example_exchange],
       euro_values = [''BTC'' \<mapsto> 6000],
       btc_values = Map.empty \<rparr>"

definition example_globals :: global_names where
  "example_globals =
     \<lparr> g_self = Some example_calculator,
       g_exchange_name1 = Some ''kraken'',
       g_exchange_name2 = Some ''bitstamp'' \<rparr>"

definition example_row :: "string \<Rightarrow> real \<Rightarrow> real \<Rightarrow> real \<Rightarrow> real \<Rightarrow> series" where
  "example_row n ask_p ask_v bid_p bid_v =
     \<lparr> timestamp = 1000, bid_price = bid_p, bid_volume = bid_v,
       ask_price = ask_p, ask_volume = ask_v, name = n \<rparr>"

definition refined_at :: "int \<Rightarrow> real \<Rightarrow> real \<Rightarrow> refined_row" where
  "refined_at t p a = \<lparr> row_timestamp = t, row_net_profit_euro = p, row_max_initial_amount = a \<rparr>"

definition table :: "refined_row list \<Rightarrow> dataframe" where
  "table rs = \<lparr> df_name = ''ETH_BTC_kraken_bitstamp'', rows = rs \<rparr>"

text \<open>The namespace in which line 96 finds the helper the module does define.\<close>

definition repaired_globals :: callable_names where
  "repaired_globals = backtester_globals(''convert_seconds_to_minutes'' \<mapsto> convert_time_to_minutes)"

text \<open>
  A table for the cooldown: a profitable row at 1.5 s, whose time in whole seconds is 2,
  rows at 3000 s, 5401 s and 5402 s, and three trailing rows.
\<close>

definition cooldown_rows :: "refined_row list" where
  "cooldown_rows =
     [refined_at 1500 1 100, refined_at 3000000 5 5, refined_at 5401000 6 6,
      refined_at 5402000 7 7, refined_at 20000000 1 1, refined_at 20000001 1 1,
      refined_at 20000002 1 1]"

text \<open>The state of the scan of \<open>cooldown_rows\<close> when the loop is first entered.\<close>

definition cooldown_state :: "data_selector \<times> profits_over_time" where
  "cooldown_state =
     (\<lparr> full_dataframe = cooldown_rows, finished = False, index = 1,
        row = Some (refined_at 1500 1 100) \<rparr>,
      \<lparr> profit = [], time = [], cumulative_profit = 0 \<rparr>)"

text \<open>
  A table whose first row, profitable, lies at 0.5 s, a time that rounds down to 0, and
  which has a profitable row at 5400 s; and the state of its scan when the loop is first
  entered.
\<close>

definition half_second_rows :: "refined_row list" where
  "half_second_rows =
     [refined_at 500 1 100, refined_at 3000000 5 5, refined_at 5400000 7 7,
      refined_at 6000000 1 1, refined_at 20000000 1 1, refined_at 20000001 1 1,
      refined_at 20000002 1 1]"

definition half_second_state :: "data_selector \<times> profits_over_time" where
  "half_second_state =
     (\<lparr> full_dataframe = half_second_rows, finished = False, index = 1,
        row = Some (refined_at 500 1 100) \<rparr>,
      \<lparr> profit = [], time = [], cumulative_profit = 0 \<rparr>)"

text \<open>A table whose scan spans 720 minutes and realises one trade of 100.\<close>

definition day_rows :: "refined_row list" where
  "day_rows =
     [refined_at 0 1 100, refined_at 43200000 0 1, refined_at 43200001 0 1,
      refined_at 43200002 0 1]"

section \<open>Properties of the aggregator\<close>

lemma py_sum_sum_list: "py_sum xs = sum_list xs"
proof -
  have "foldl (+) a xs = a + sum_list xs" for a :: real
    by (induction xs arbitrary: a) simp_all
  then show ?thesis by (simp add: py_sum_def)
qed

section \<open>Properties of the synchroniser\<close>

lemma get_next_row_pair_total:
  assumes "index1 s < length (df1 s)" "index2 s < length (df2 s)" "\<not> sync_finished s"
  shows "\<exists>r s'. get_next_row_pair s = Inr (r, s') \<and> r \<noteq> NoneValue"
  using assms
proof (induction s rule: get_next_row_pair.induct)
  case (1 s)
  show ?case
  proof (cases "is_last_row (index1 s) (df1 s) \<or> is_last_row (index2 s) (df2 s)")
    case True
    with "1.prems" show ?thesis
      by (auto simp: get_next_row_pair.simps [of s])
  next
    case guard: False
    show ?thesis
    proof (cases "\<bar>timestamp (df1 s ! index1 s) - timestamp (df2 s ! index2 s)\<bar> < tolerance s")
      case True
      with guard "1.prems" show ?thesis
        by (auto simp: get_next_row_pair.simps [of s])
    next
      case False
      let ?t = "advance_index_with_greater_timestamp s (df1 s ! index1 s) (df2 s ! index2 s)"
      from guard "1.prems" have "index1 ?t < length (df1 ?t) \<and> index2 ?t < length (df2 ?t) \<and> \<not> sync_finished ?t"
        by (auto simp: advance_index_with_greater_timestamp_def is_last_row_def)
      with "1.IH" guard False "1.prems" have "\<exists>r s'. get_next_row_pair ?t = Inr (r, s') \<and> r \<noteq> NoneValue"
        by simp
      with guard False "1.prems" show ?thesis
        by (simp add: get_next_row_pair.simps [of s])
    qed
  qed
qed

lemma emitted_pairs_total:
  assumes "index1 s < length (df1 s)" "index2 s < length (df2 s)"
  shows "\<exists>ps. emitted_pairs s acc = Inr ps"
  using assms
proof (induction s acc rule: emitted_pairs.induct)
  case (1 s acc)
  show ?case
  proof (cases "sync_finished s")
    case True
    then show ?thesis by (simp add: emitted_pairs.simps [of s])
  next
    case False
    with "1.prems" obtain r s' where r: "get_next_row_pair s = Inr (r, s')" "r \<noteq> NoneValue"
      using get_next_row_pair_total by blast
    show ?thesis
    proof (cases r)
      case (RowPair a b)
      with r have g: "get_next_row_pair s = Inr (RowPair a b, s')" by simp
      from get_next_row_pair_RowPair [OF g]
      have "index1 s' < length (df1 s')" "index2 s' < length (df2 s')" by simp_all
      with "1.IH" [OF False g refl refl] have "\<exists>ps. emitted_pairs s' (acc @ [(a, b)]) = Inr ps"
        by simp
      with False g show ?thesis by (simp add: emitted_pairs.simps [of s])
    next
      case NonePair
      with r False show ?thesis by (simp add: emitted_pairs.simps [of s])
    next
      case NoneValue
      with r show ?thesis by simp
    qed
  qed
qed

lemma emitted_pairs_length:
  assumes "emitted_pairs s acc = Inr ps" "index1 s < length (df1 s)" "index2 s < length (df2 s)"
  shows "length ps + index1 s < length acc + length (df1 s) \<and>
         length ps + index2 s < length acc + length (df2 s)"
  using assms
proof (induction s acc rule: emitted_pairs.induct)
  case (1 s acc)
  show ?case
  proof (cases "sync_finished s")
    case True
    with "1.prems" show ?thesis by (simp add: emitted_pairs.simps [of s])
  next
    case False
    show ?thesis
    proof (cases "get_next_row_pair s")
      case (Inl e)
      with False "1.prems" show ?thesis by (simp add: emitted_pairs.simps [of s])
    next
      case (Inr rs)
      obtain r s' where rs: "rs = (r, s')" by (cases rs)
      show ?thesis
      proof (cases r)
        case (RowPair a b)
        with Inr rs have g: "get_next_row_pair s = Inr (RowPair a b, s')" by simp
        note p = get_next_row_pair_RowPair [OF g]
        from False g "1.prems" have e: "emitted_pairs s' (acc @ [(a, b)]) = Inr ps"
          by (simp add: emitted_pairs.simps [of s])
        from p have "index1 s' < length (df1 s')" "index2 s' < length (df2 s')" by simp_all
        with "1.IH" [OF False g refl refl e]
        have "length ps + index1 s' < length (acc @ [(a, b)]) + length (df1 s') \<and>
              length ps + index2 s' < length (acc @ [(a, b)]) + length (df2 s')" by simp
        with p show ?thesis by auto
      next
        case NonePair
        with Inr rs False "1.prems" show ?thesis by (simp add: emitted_pairs.simps [of s])
      next
        case NoneValue
        with Inr rs False "1.prems" show ?thesis by (simp add: emitted_pairs.simps [of s])
      qed
    qed
  qed
qed

lemma emitted_pairs_tolerance:
  assumes "emitted_pairs s acc = Inr ps"
    and "\<forall>p\<in>set acc. \<bar>timestamp (fst p) - timestamp (snd p)\<bar> < tolerance s \<and> fst p \<in> set (df1 s) \<and> snd p \<in> set (df2 s)"
  shows "\<forall>p\<in>set ps. \<bar>timestamp (fst p) - timestamp (snd p)\<bar> < tolerance s \<and> fst p \<in> set (df1 s) \<and> snd p \<in> set (df2 s)"
  using assms
proof (induction s acc rule: emitted_pairs.induct)
  case (1 s acc)
  show ?case
  proof (cases "sync_finished s")
    case True
    with "1.prems" show ?thesis by (simp add: emitted_pairs.simps [of s])
  next
    case False
    show ?thesis
    proof (cases "get_next_row_pair s")
      case (Inl e)
      with False "1.prems" show ?thesis by (simp add: emitted_pairs.simps [of s])
    next
      case (Inr rs)
      obtain r s' where rs: "rs = (r, s')" by (cases rs)
      show ?thesis
      proof (cases r)
        case (RowPair a b)
        with Inr rs have g: "get_next_row_pair s = Inr (RowPair a b, s')" by simp
        note p = get_next_row_pair_RowPair [OF g]
        from False g "1.prems" have e: "emitted_pairs s' (acc @ [(a, b)]) = Inr ps"
          by (simp add: emitted_pairs.simps [of s])
        from p "1.prems"(2)
        have "\<forall>p\<in>set (acc @ [(a, b)]). \<bar>timestamp (fst p) - timestamp (snd p)\<bar> < tolerance s' \<and> fst p \<in> set (df1 s') \<and> snd p \<in> set (df2 s')"
          by auto
        from "1.IH" [OF False g refl refl e this] p show ?thesis by simp
      next
        case NonePair
        with Inr rs False "1.prems" show ?thesis by (simp add: emitted_pairs.simps [of s])
      next
        case NoneValue
        with Inr rs False "1.prems" show ?thesis by (simp add: emitted_pairs.simps [of s])
      qed
    qed
  qed
qed

lemma sync_empty1: "synchronize [] d2 tol = Inl IndexError"
  by (simp add: synchronize_def new_selector_def emitted_pairs.simps get_next_row_pair.simps)

lemma sync_empty2: "synchronize d1 [] tol = Inl IndexError"
  by (simp add: synchronize_def new_selector_def emitted_pairs.simps get_next_row_pair.simps)

lemma emitted_pairs_prefix:
  "emitted_pairs s acc = Inr ps \<Longrightarrow> \<exists>rest. ps = acc @ rest"
proof (induction s acc rule: emitted_pairs.induct)
  case (1 s acc)
  show ?case
  proof (cases "sync_finished s")
    case True
    with "1.prems" show ?thesis by (simp add: emitted_pairs.simps [of s])
  next
    case False
    show ?thesis
    proof (cases "get_next_row_pair s")
      case (Inl e)
      with False "1.prems" show ?thesis by (simp add: emitted_pairs.simps [of s])
    next
      case (Inr rs)
      obtain r s' where rs: "rs = (r, s')" by (cases rs)
      show ?thesis
      proof (cases r)
        case (RowPair a b)
        with Inr rs have g: "get_next_row_pair s = Inr (RowPair a b, s')" by simp
        from False g "1.prems" have e: "emitted_pairs s' (acc @ [(a, b)]) = Inr ps"
          by (simp add: emitted_pairs.simps [of s])
        from "1.IH" [OF False g refl refl e] show ?thesis by auto
      next
        case NonePair
        with Inr rs False "1.prems" show ?thesis by (simp add: emitted_pairs.simps [of s])
      next
        case NoneValue
        with Inr rs False "1.prems" show ?thesis by (simp add: emitted_pairs.simps [of s])
      qed
    qed
  qed
qed

text \<open>
  The number of pairs: two non-empty streams always synchronise without an error, into at
  most as many pairs as the shorter stream has rows.
\<close>

lemma output_length_bound:
  "(d1 \<noteq> [] \<and> d2 \<noteq> [] \<longrightarrow>
      (\<exists>ps. synchronize d1 d2 tol = Inr ps \<and> length ps \<le> min (length d1) (length d2)))
   \<and> (d1 = [] \<or> d2 = [] \<longrightarrow> synchronize d1 d2 tol = Inl IndexError)"
proof (intro conjI impI)
  assume ne: "d1 \<noteq> [] \<and> d2 \<noteq> []"
  let ?s = "new_selector d1 d2 tol"
  from ne have inv: "index1 ?s < length (df1 ?s)" "index2 ?s < length (df2 ?s)"
    by (simp_all add: new_selector_def)
  from emitted_pairs_total [OF inv] obtain ps where ps: "emitted_pairs ?s [] = Inr ps" ..
  from emitted_pairs_length [OF ps inv] have "length ps \<le> min (length d1) (length d2)"
    by (simp add: new_selector_def)
  with ps show "\<exists>ps. synchronize d1 d2 tol = Inr ps \<and> length ps \<le> min (length d1) (length d2)"
    by (simp add: synchronize_def)
next
  assume "d1 = [] \<or> d2 = []"
  then show "synchronize d1 d2 tol = Inl IndexError"
    using sync_empty1 sync_empty2 by blast
qed

section \<open>Properties of the calculator\<close>

lemma bind_err_simps [simp]:
  "bind_err (Inl e) f = Inl e"
  "bind_err (Inr x) f = f x"
  by (simp_all add: bind_err_def)

lemma bind_err_Inr:
  "bind_err m f = Inr y \<longleftrightarrow> (\<exists>x. m = Inr x \<and> f x = Inr y)"
  by (cases m) simp_all

lemmas calculator_defs =
  profitability_calculator_def compare_arbitrage_profitability_def
  lookup_name_def lookup_key_def bind_err_def if_not_None_def
  get_withdrawal_fee_def max_volume_def calculate_trade_amounts_def adjust_for_withdrawal_def
  calculate_profits_def convert_to_euro_def convert_to_btc_def np_div_def np_times_def Let_def

lemmas example_defs =
  example_globals_def example_calculator_def example_exchange_def example_row_def

text \<open>
  As the module stands, with none of the three global names bound, neither function
  returns a record.
\<close>

lemma compare_unbound_self:
  "compare_arbitrage_profitability module_globals df_exchange1 df_exchange2 obj1 obj2
     = Inl (NameError ''self'')"
  by (simp add: compare_arbitrage_profitability_def module_globals_def lookup_name_def)

lemma profitability_calculator_unbound_names:
  "\<exists>e. profitability_calculator module_globals self df_exchange1 df_exchange2 obj1 obj2 = Inl e"
  by (simp add: profitability_calculator_def module_globals_def lookup_name_def Let_def)

text \<open>
  Without a withdrawal fee the net figures always repeat the gross ones, whatever the
  amounts.
\<close>

lemma net_equals_gross_without_fee:
  "calculate_profits initial_quote_paid quote_gained (adjust_for_withdrawal quote_gained None)
     = (quote_gained - initial_quote_paid,
        np_times (np_div (quote_gained - initial_quote_paid) initial_quote_paid) 100,
        Some (quote_gained - initial_quote_paid),
        Some (np_times (np_div (quote_gained - initial_quote_paid) initial_quote_paid) 100))"
  by (simp add: calculate_profits_def adjust_for_withdrawal_def Let_def)

text \<open>When the lookups and the conversion succeed.\<close>

lemma lookup_name_Inr: "lookup_name n b = Inr v \<longleftrightarrow> b = Some v"
  by (cases b) (simp_all add: lookup_name_def)

lemma lookup_key_Inr: "lookup_key d k = Inr v \<longleftrightarrow> d k = Some v"
  by (cases "d k") (simp_all add: lookup_key_def)

lemma convert_to_euro_Inr:
  "convert_to_euro self x q = Inr y \<longleftrightarrow> (\<exists>rate. euro_values self q = Some rate \<and> y = x * rate)"
  by (cases "euro_values self q") (auto simp: convert_to_euro_def)

section \<open>Properties of the backtest scan\<close>

lemma first_get_next_row:
  assumes "df \<noteq> []"
  shows "\<exists>sel. get_next_row (new_data_selector df) = Inr sel \<and> full_dataframe sel = df
           \<and> (finished sel \<or> on_row sel)"
  using assms by (auto simp: get_next_row_def new_data_selector_def on_row_def Let_def)

lemma get_next_row_on_row:
  assumes "on_row sel"
  shows "\<exists>sel'. get_next_row sel = Inr sel' \<and> full_dataframe sel' = full_dataframe sel
           \<and> (finished sel' \<or> (on_row sel' \<and> index sel' = index sel + 1))"
  using assms by (auto simp: get_next_row_def on_row_def Let_def)

lemma after_time_loop_on_row:
  assumes "on_row sel" and "\<not> finished sel"
  shows "\<exists>sel'. after_time_loop final_time sel = Inr sel'
          \<and> full_dataframe sel' = full_dataframe sel
          \<and> (finished sel' \<or>
               (on_row sel' \<and> index sel \<le> index sel'
                \<and> real_of_int final_time
                     \<le> real_of_int (row_timestamp (full_dataframe sel ! (index sel' - 1))) / 1000
                \<and> (\<forall>i. index sel - 1 \<le> i \<and> i < index sel' - 1 \<longrightarrow>
                      real_of_int (row_timestamp (full_dataframe sel ! i)) / 1000
                        < real_of_int final_time)))"
  using assms
proof (induction final_time sel rule: after_time_loop.induct)
  case (1 final_time sel)
  let ?df = "full_dataframe sel"
  let ?r = "?df ! (index sel - 1)"
  from "1.prems" have r: "row sel = Some ?r" by (simp add: on_row_def)
  show ?case
  proof (cases "real_of_int (row_timestamp ?r) / 1000 < real_of_int final_time")
    case False
    with r "1.prems" show ?thesis
      by (auto simp: after_time_loop.simps [of final_time sel])
  next
    case True
    from get_next_row_on_row [OF "1.prems"(1)] obtain sel1 where
      g: "get_next_row sel = Inr sel1" and df1: "full_dataframe sel1 = ?df"
      and c: "finished sel1 \<or> (on_row sel1 \<and> index sel1 = index sel + 1)"
      by blast
    show ?thesis
    proof (cases "finished sel1")
      case True
      with \<open>real_of_int (row_timestamp ?r) / 1000 < real_of_int final_time\<close> r g df1
      show ?thesis by (simp add: after_time_loop.simps [of final_time sel])
    next
      case nf: False
      with c have o1: "on_row sel1" and i1: "index sel1 = index sel + 1" by simp_all
      from "1.IH" [OF r True g nf o1 nf] obtain sel' where
        a: "after_time_loop final_time sel1 = Inr sel'"
        and df': "full_dataframe sel' = full_dataframe sel1"
        and p: "finished sel' \<or>
               (on_row sel' \<and> index sel1 \<le> index sel'
                \<and> real_of_int final_time
                     \<le> real_of_int (row_timestamp (full_dataframe sel1 ! (index sel' - 1))) / 1000
                \<and> (\<forall>i. index sel1 - 1 \<le> i \<and> i < index sel' - 1 \<longrightarrow>
                      real_of_int (row_timestamp (full_dataframe sel1 ! i)) / 1000
                        < real_of_int final_time))"
        by blast
      from True r g nf a have e: "after_time_loop final_time sel = Inr sel'"
        by (simp add: after_time_loop.simps [of final_time sel])
      show ?thesis
      proof (cases "finished sel'")
        case True
        with e df' df1 show ?thesis by simp
      next
        case False
        with p have q: "on_row sel'" "index sel1 \<le> index sel'"
          "real_of_int final_time
             \<le> real_of_int (row_timestamp (full_dataframe sel1 ! (index sel' - 1))) / 1000"
          "\<forall>i. index sel1 - 1 \<le> i \<and> i < index sel' - 1 \<longrightarrow>
              real_of_int (row_timestamp (full_dataframe sel1 ! i)) / 1000
                < real_of_int final_time"
          by simp_all
        have "\<forall>i. index sel - 1 \<le> i \<and> i < index sel' - 1 \<longrightarrow>
                real_of_int (row_timestamp (?df ! i)) / 1000 < real_of_int final_time"
        proof (intro allI impI)
          fix i assume i: "index sel - 1 \<le> i \<and> i < index sel' - 1"
          show "real_of_int (row_timestamp (?df ! i)) / 1000 < real_of_int final_time"
          proof (cases "i = index sel - 1")
            case True
            with \<open>real_of_int (row_timestamp ?r) / 1000 < real_of_int final_time\<close>
            show ?thesis by simp
          next
            case False
            with i i1 "1.prems"(1) have "index sel1 - 1 \<le> i \<and> i < index sel' - 1"
              by (auto simp: on_row_def)
            with q(4) df1 show ?thesis by simp
          qed
        qed
        with e df' df1 q i1 show ?thesis by simp
      qed
    qed
  qed
qed

lemma get_next_row_after_time_on_row:
  assumes "on_row sel" and "\<not> finished sel" and "1 \<le> time_step"
  shows "\<exists>sel'. get_next_row_after_time sel time_step = Inr sel'
          \<and> full_dataframe sel' = full_dataframe sel
          \<and> (finished sel' \<or>
               (on_row sel' \<and> index sel < index sel'
                \<and> real_of_int (time_of_result (full_dataframe sel ! (index sel - 1)) + time_step)
                     \<le> real_of_int (row_timestamp (full_dataframe sel ! (index sel' - 1))) / 1000
                \<and> (\<forall>i. index sel \<le> i \<and> i < index sel' - 1 \<longrightarrow>
                      real_of_int (row_timestamp (full_dataframe sel ! i)) / 1000
                        < real_of_int
                            (time_of_result (full_dataframe sel ! (index sel - 1)) + time_step))))"
proof -
  let ?df = "full_dataframe sel"
  let ?r = "?df ! (index sel - 1)"
  let ?f = "time_of_result ?r + time_step"
  from assms(1) have r: "row sel = Some ?r" by (simp add: on_row_def)
  then have u: "get_next_row_after_time sel time_step = after_time_loop ?f sel"
    by (simp add: get_next_row_after_time_def time_of_result_def Let_def)
  from after_time_loop_on_row [OF assms(1,2), of ?f] obtain sel' where
    a: "after_time_loop ?f sel = Inr sel'" and df': "full_dataframe sel' = ?df"
    and p: "finished sel' \<or>
               (on_row sel' \<and> index sel \<le> index sel'
                \<and> real_of_int ?f
                     \<le> real_of_int (row_timestamp (?df ! (index sel' - 1))) / 1000
                \<and> (\<forall>i. index sel - 1 \<le> i \<and> i < index sel' - 1 \<longrightarrow>
                      real_of_int (row_timestamp (?df ! i)) / 1000 < real_of_int ?f))"
    by blast
  show ?thesis
  proof (cases "finished sel'")
    case True
    with u a df' show ?thesis by simp
  next
    case False
    from u a have "get_next_row_after_time sel time_step = Inr sel'" by simp
    from get_next_row_after_time_progress [OF this False assms(3)]
    have "index sel < index sel'" by simp
    with False p u a df' show ?thesis by auto
  qed
qed

lemma waiting_time_pos: "1 \<le> waiting_time"
  by (simp add: waiting_time_def waiting_time_minutes_def)

lemma loop_body_on_row:
  assumes "on_row (fst st)" and "\<not> finished (fst st)"
  shows "\<exists>st'. loop_body st = Inr st'
          \<and> full_dataframe (fst st') = full_dataframe (fst st)
          \<and> (finished (fst st') \<or> (on_row (fst st') \<and> index (fst st) < index (fst st')))"
proof -
  let ?r = "full_dataframe (fst st) ! (index (fst st) - 1)"
  from assms(1) have r: "row (fst st) = Some ?r" by (simp add: on_row_def)
  show ?thesis
  proof (cases "minimum_profit < capped_profit ?r")
    case True
    from get_next_row_after_time_on_row [OF assms waiting_time_pos] obtain sel' where
      "get_next_row_after_time (fst st) waiting_time = Inr sel'"
      "full_dataframe sel' = full_dataframe (fst st)"
      "finished sel' \<or> (on_row sel' \<and> index (fst st) < index sel')"
      by blast
    with r True show ?thesis by (simp add: loop_body_def Let_def)
  next
    case False
    from get_next_row_on_row [OF assms(1)] obtain sel' where
      "get_next_row (fst st) = Inr sel'"
      "full_dataframe sel' = full_dataframe (fst st)"
      "finished sel' \<or> (on_row sel' \<and> index sel' = index (fst st) + 1)"
      by blast
    with r False show ?thesis by (auto simp: loop_body_def Let_def)
  qed
qed

lemma backtest_loop_total:
  assumes "finished (fst st) \<or> on_row (fst st)"
  shows "\<exists>st'. backtest_loop st = Inr st'"
  using assms
proof (induction st rule: backtest_loop.induct)
  case (1 st)
  show ?case
  proof (cases "finished (fst st)")
    case True
    then show ?thesis by (simp add: backtest_loop.simps [of st])
  next
    case False
    with "1.prems" have o: "on_row (fst st)" by simp
    from loop_body_on_row [OF o False] obtain st1 where
      b: "loop_body st = Inr st1" and c: "finished (fst st1) \<or> on_row (fst st1)"
      by blast
    from "1.IH" [OF False b c] obtain st' where "backtest_loop st1 = Inr st'" ..
    with False b show ?thesis by (simp add: backtest_loop.simps [of st])
  qed
qed

lemma scan_total:
  assumes "df \<noteq> []"
  shows "\<exists>st. scan df = Inr st"
proof -
  from first_get_next_row [OF assms] obtain sel where
    g: "get_next_row (new_data_selector df) = Inr sel" and c: "finished sel \<or> on_row sel"
    by blast
  from c have "\<exists>st'. backtest_loop (sel, \<lparr> profit = [], time = [], cumulative_profit = 0 \<rparr>) = Inr st'"
    by (intro backtest_loop_total) simp
  with g show ?thesis by (simp add: scan_def)
qed

lemma scan_empty: "scan [] = Inl KeyError"
  by (simp add: scan_def get_next_row_def new_data_selector_def)

lemmas scan_defs =
  scan_def get_next_row_def new_data_selector_def backtest_loop.simps loop_body_def
  get_next_row_after_time_def after_time_loop.simps time_of_result_def capped_profit_def
  py_round_def max_trade_volume_def minimum_profit_def waiting_time_def waiting_time_minutes_def
  Let_def

lemmas backtest_defs =
  backtest_results_def py_index_def py_last_def py_div_def lookup_name_def
  convert_time_to_minutes_def py_round_ndigits_def backtester_globals_def

lemma scan_reaches_invariant:
  assumes "scan_reaches df st"
  shows "full_dataframe (fst st) = df \<and> (finished (fst st) \<or> on_row (fst st))"
  using assms
proof (induction rule: scan_reaches.induct)
  case (first_row sel)
  then have "df \<noteq> []"
    by (auto simp: get_next_row_def new_data_selector_def)
  from first_get_next_row [OF this] first_row show ?case by auto
next
  case (next_pass st st')
  from next_pass.hyps(2) have nf: "\<not> finished (fst st)" and b: "loop_body st = Inr st'"
    by (simp_all add: scan_step_def)
  with next_pass.IH have o: "on_row (fst st)" by simp
  from loop_body_on_row [OF o nf] b next_pass.IH show ?case by auto
qed

lemma scan_step_index:
  assumes "scan_step st st'" and "on_row (fst st)"
  shows "full_dataframe (fst st') = full_dataframe (fst st)
       \<and> (finished (fst st') \<or> (on_row (fst st') \<and> index (fst st) < index (fst st')))"
proof -
  from assms(1) have nf: "\<not> finished (fst st)" and b: "loop_body st = Inr st'"
    by (simp_all add: scan_step_def)
  from loop_body_on_row [OF assms(2) nf] b show ?thesis by auto
qed

lemma scan_steps_index:
  assumes "scan_step\<^sup>+\<^sup>+ st st'" and "on_row (fst st)"
  shows "\<not> finished (fst st') \<longrightarrow>
           on_row (fst st') \<and> index (fst st) < index (fst st')
           \<and> full_dataframe (fst st') = full_dataframe (fst st)"
  using assms(1)
proof (induction rule: tranclp_induct)
  case (base y)
  from scan_step_index [OF base assms(2)] show ?case by auto
next
  case (step y z)
  from step.hyps(2) have "\<not> finished (fst y)" by (simp add: scan_step_def)
  with step.IH have y: "on_row (fst y)" "index (fst st) < index (fst y)"
    "full_dataframe (fst y) = full_dataframe (fst st)" by simp_all
  from scan_step_index [OF step.hyps(2) y(1)] y show ?case by auto
qed

text \<open>The time in whole seconds lies within half a second of the timestamp.\<close>

lemma py_round_half:
  "x - 1 / 2 \<le> real_of_int (py_round x) \<and> real_of_int (py_round x) \<le> x + 1 / 2"
  unfolding py_round_def Let_def by (auto; linarith)

text \<open>
  On the example table the trade at 1.5 s, recorded at 2 s, sends the cursor past the rows
  at 3000 s and 5401 s to the row at 5402 s, the first one at or after \<open>2 + 5400\<close>.
\<close>

lemma cooldown_rows_skip:
  "loop_body cooldown_state
     = Inr (\<lparr> full_dataframe = cooldown_rows, finished = False, index = 4,
              row = Some (refined_at 5402000 7 7) \<rparr>,
            \<lparr> profit = [100], time = [2], cumulative_profit = 100 \<rparr>)"
  by (simp add: loop_body_def cooldown_state_def cooldown_rows_def get_next_row_after_time_def
      after_time_loop.simps get_next_row_def time_of_result_def capped_profit_def py_round_def
      max_trade_volume_def minimum_profit_def waiting_time_def waiting_time_minutes_def
      refined_at_def Let_def)

section \<open>Claims\<close>

text \<open>
  Claim C1, as stated: on equal gross profits the first-listed direction (\<open>result1\<close>) is
  returned. Here both directions earn 12000 EUR and differ in the amount paid; the record
  returned is that of the second call, the reversed direction.
\<close>

theorem tie_counterexample:
  "profitability_calculator example_globals example_calculator
       (example_row ''ETH/BTC_kraken'' 100 1 11 2) (example_row ''ETH/BTC_bitstamp'' 10 2 102 1)
       example_exchange example_exchange
     = Inr \<lparr> max_initial_amount_euro = 600000, max_initial_amount_btc = 100,
             gross_profit_euro = 12000, gross_profit_btc = 2,
             percent_gross_profit = Finite 2, net_profit_euro = Some 12000,
             net_profit_btc = Some 2, percent_net_profit = Some (Finite 2),
             buy_exchange = ''kraken'', sell_exchange = ''bitstamp'',
             result_timestamp = 1000 \<rparr>
   \<and> profitability_calculator example_globals example_calculator
       (example_row ''ETH/BTC_bitstamp'' 10 2 102 1) (example_row ''ETH/BTC_kraken'' 100 1 11 2)
       example_exchange example_exchange
     = Inr \<lparr> max_initial_amount_euro = 120000, max_initial_amount_btc = 20,
             gross_profit_euro = 12000, gross_profit_btc = 2,
             percent_gross_profit = Finite 10, net_profit_euro = Some 12000,
             net_profit_btc = Some 2, percent_net_profit = Some (Finite 10),
             buy_exchange = ''kraken'', sell_exchange = ''bitstamp'',
             result_timestamp = 1000 \<rparr>
   \<and> compare_arbitrage_profitability example_globals
       (example_row ''ETH/BTC_kraken'' 100 1 11 2) (example_row ''ETH/BTC_bitstamp'' 10 2 102 1)
       example_exchange example_exchange
     = Inr \<lparr> max_initial_amount_euro = 120000, max_initial_amount_btc = 20,
             gross_profit_euro = 12000, gross_profit_btc = 2,
             percent_gross_profit = Finite 10, net_profit_euro = Some 12000,
             net_profit_btc = Some 2, percent_net_profit = Some (Finite 10),
             buy_exchange = ''kraken'', sell_exchange = ''bitstamp'',
             result_timestamp = 1000 \<rparr>"
  by (simp add: calculator_defs example_defs)

text \<open>
  Claim C1, amended. Whenever \<open>compare_arbitrage_profitability\<close> returns a record, it is
  the record of the direction with the greater gross profit (in EUR), and when the two
  gross profits are equal it is the record of the second-listed direction (\<open>result2\<close>).
\<close>

theorem compare_returns_greater_gross_profit:
  assumes "compare_arbitrage_profitability g df_exchange1 df_exchange2 obj1 obj2 = Inr r"
  shows "\<exists>self result1 result2.
           g_self g = Some self
         \<and> profitability_calculator g self df_exchange1 df_exchange2 obj1 obj2 = Inr result1
         \<and> profitability_calculator g self df_exchange2 df_exchange1 obj2 obj1 = Inr result2
         \<and> gross_profit_euro r = max (gross_profit_euro result1) (gross_profit_euro result2)
         \<and> (gross_profit_euro result2 < gross_profit_euro result1 \<longrightarrow> r = result1)
         \<and> (gross_profit_euro result1 \<le> gross_profit_euro result2 \<longrightarrow> r = result2)"
proof -
  from assms obtain self where s: "g_self g = Some self"
    by (cases "g_self g")
       (simp_all add: compare_arbitrage_profitability_def lookup_name_def bind_err_def)
  from assms s obtain result1
    where r1: "profitability_calculator g self df_exchange1 df_exchange2 obj1 obj2 = Inr result1"
    by (cases "profitability_calculator g self df_exchange1 df_exchange2 obj1 obj2")
       (simp_all add: compare_arbitrage_profitability_def lookup_name_def bind_err_def)
  from assms s r1 obtain result2
    where r2: "profitability_calculator g self df_exchange2 df_exchange1 obj2 obj1 = Inr result2"
    by (cases "profitability_calculator g self df_exchange2 df_exchange1 obj2 obj1")
       (simp_all add: compare_arbitrage_profitability_def lookup_name_def bind_err_def)
  from assms s r1 r2
  have "r = (if gross_profit_euro result2 < gross_profit_euro result1 then result1 else result2)"
    by (simp add: compare_arbitrage_profitability_def lookup_name_def bind_err_def)
  with s r1 r2 show ?thesis by (auto simp: max_def)
qed

theorem compare_returns_greater_gross_profit_witness:
  "compare_arbitrage_profitability example_globals
       (example_row ''ETH/BTC_kraken'' 100 1 11 2) (example_row ''ETH/BTC_bitstamp'' 10 2 103 1)
       example_exchange example_exchange
     = Inr \<lparr> max_initial_amount_euro = 600000, max_initial_amount_btc = 100,
             gross_profit_euro = 18000, gross_profit_btc = 3,
             percent_gross_profit = Finite 3, net_profit_euro = Some 18000,
             net_profit_btc = Some 3, percent_net_profit = Some (Finite 3),
             buy_exchange = ''kraken'', sell_exchange = ''bitstamp'',
             result_timestamp = 1000 \<rparr>
   \<and> (\<exists>self result1 result2.
         g_self example_globals = Some self
       \<and> profitability_calculator example_globals self
           (example_row ''ETH/BTC_kraken'' 100 1 11 2)
           (example_row ''ETH/BTC_bitstamp'' 10 2 103 1)
           example_exchange example_exchange = Inr result1
       \<and> profitability_calculator example_globals self
           (example_row ''ETH/BTC_bitstamp'' 10 2 103 1)
           (example_row ''ETH/BTC_kraken'' 100 1 11 2)
           example_exchange example_exchange = Inr result2
       \<and> (18000::real) = max (gross_profit_euro result1) (gross_profit_euro result2))"
proof -
  let ?a = "example_row ''ETH/BTC_kraken'' 100 1 11 2"
  let ?b = "example_row ''ETH/BTC_bitstamp'' 10 2 103 1"
  let ?r = "\<lparr> max_initial_amount_euro = 600000, max_initial_amount_btc = 100,
             gross_profit_euro = 18000, gross_profit_btc = 3,
             percent_gross_profit = Finite 3, net_profit_euro = Some 18000,
             net_profit_btc = Some 3, percent_net_profit = Some (Finite 3),
             buy_exchange = ''kraken'', sell_exchange = ''bitstamp'',
             result_timestamp = 1000 \<rparr>"
  have c: "compare_arbitrage_profitability example_globals ?a ?b example_exchange example_exchange
             = Inr ?r"
    by (simp add: calculator_defs example_defs)
  from compare_returns_greater_gross_profit [OF c] obtain self result1 result2 where
    "g_self example_globals = Some self"
    "profitability_calculator example_globals self ?a ?b example_exchange example_exchange
       = Inr result1"
    "profitability_calculator example_globals self ?b ?a example_exchange example_exchange
       = Inr result2"
    "gross_profit_euro ?r = max (gross_profit_euro result1) (gross_profit_euro result2)"
    by blast
  then have "\<exists>self result1 result2.
         g_self example_globals = Some self
       \<and> profitability_calculator example_globals self ?a ?b
           example_exchange example_exchange = Inr result1
       \<and> profitability_calculator example_globals self ?b ?a
           example_exchange example_exchange = Inr result2
       \<and> (18000::real) = max (gross_profit_euro result1) (gross_profit_euro result2)"
    by (intro exI [of _ self] exI [of _ result1] exI [of _ result2]) simp
  with c show ?thesis by (rule conjI)
qed

text \<open>
  Claim C2: with no withdrawal-fee entry for the settlement currency on the sell exchange,
  net profit is left undefined and never set equal to gross profit. Evaluated on the code:
  the lookup gives \<open>None\<close>, \<open>adjust_for_withdrawal\<close> then returns the unchanged quote amount,
  and \<open>calculate_profits\<close> reports a net profit equal to the gross profit. Its own
  \<open>None\<close> branch, which would leave the net fields undefined, is reached only when it is
  handed \<open>None\<close> directly.
\<close>

theorem missing_withdrawal_fee_net_equals_gross:
  "get_withdrawal_fee example_calculator ''bitstamp'' ''BTC'' = None
   \<and> adjust_for_withdrawal 102 None = Some 102
   \<and> calculate_profits 100 102 (adjust_for_withdrawal 102 None)
       = (2, Finite 2, Some 2, Some (Finite 2))
   \<and> calculate_profits 100 102 None = (2, Finite 2, None, None)"
  by (simp add: calculator_defs example_defs)

text \<open>
  Claim C3, as stated: the volume used never exceeds a configured maximum. The calculator
  has no ceiling; the only configured maximum of the program is \<open>max_trade_volume\<close> of the
  backtester. A book with 2000 on the ask side of the buy exchange and 3000 on the bid
  side of the sell exchange trades 2000: 2000 is paid for at price 1 and 2000 is sold at
  price 2.
\<close>

theorem volume_exceeds_ceiling_counterexample:
  "max_volume (example_row ''ETH/BTC_kraken'' 1 2000 1 0)
              (example_row ''ETH/BTC_bitstamp'' 1 0 2 3000) = 2000
   \<and> \<not> max_volume (example_row ''ETH/BTC_kraken'' 1 2000 1 0)
                (example_row ''ETH/BTC_bitstamp'' 1 0 2 3000) \<le> max_trade_volume
   \<and> profitability_calculator example_globals example_calculator
       (example_row ''ETH/BTC_kraken'' 1 2000 1 0) (example_row ''ETH/BTC_bitstamp'' 1 0 2 3000)
       example_exchange example_exchange
     = Inr \<lparr> max_initial_amount_euro = 12000000, max_initial_amount_btc = 2000,
             gross_profit_euro = 12000000, gross_profit_btc = 2000,
             percent_gross_profit = Finite 100, net_profit_euro = Some 12000000,
             net_profit_btc = Some 2000, percent_net_profit = Some (Finite 100),
             buy_exchange = ''kraken'', sell_exchange = ''bitstamp'',
             result_timestamp = 1000 \<rparr>"
  by (simp add: calculator_defs example_defs max_trade_volume_def)

text \<open>
  Claim C3, amended. Whenever the profitability computation returns a record, the trade
  volume it used on both legs equals \<open>min(ask_volume of the buy exchange, bid_volume of the
  sell exchange)\<close>, with no ceiling applied: the amount paid is that volume at the ask
  price, and the gross profit is that volume, less the two taker fees, at the bid price
  minus the amount paid (both converted to EUR at the rate of the quote currency).
\<close>

theorem trade_volume_is_uncapped_minimum:
  assumes "profitability_calculator g self df_exchange1 df_exchange2 obj1 obj2 = Inr r"
  shows "\<exists>exchange_name1 exchange_name2 ex1 ex2 rate.
           g_exchange_name1 g = Some exchange_name1
         \<and> exchanges self exchange_name1 = Some ex1
         \<and> g_exchange_name2 g = Some exchange_name2
         \<and> exchanges self exchange_name2 = Some ex2
         \<and> euro_values self
              (split_on CHR ''/'' (hd (split_on CHR ''_'' (name df_exchange1))) ! 1) = Some rate
         \<and> max_initial_amount_euro r
             = min (ask_volume df_exchange1) (bid_volume df_exchange2)
                 * ask_price df_exchange1 * rate
         \<and> gross_profit_euro r
             = (min (ask_volume df_exchange1) (bid_volume df_exchange2)
                  * (1 - taker ex1) * bid_price df_exchange2 * (1 - taker ex2)
                - min (ask_volume df_exchange1) (bid_volume df_exchange2)
                    * ask_price df_exchange1) * rate"
proof -
  let ?parts = "split_on CHR ''/'' (hd (split_on CHR ''_'' (name df_exchange1)))"
  let ?quote = "?parts ! 1"
  let ?v = "min (ask_volume df_exchange1) (bid_volume df_exchange2)"
  from assms have len: "length ?parts = 2"
    by (simp add: profitability_calculator_def Let_def split: if_splits)
  from assms len obtain exchange_name1 ex1 exchange_name2 ex2 gross_euro initial_euro where
    n1: "g_exchange_name1 g = Some exchange_name1" and e1: "exchanges self exchange_name1 = Some ex1"
    and n2: "g_exchange_name2 g = Some exchange_name2" and e2: "exchanges self exchange_name2 = Some ex2"
    and ge: "convert_to_euro self
               (?v * (1 - taker ex1) * bid_price df_exchange2 * (1 - taker ex2)
                 - ?v * ask_price df_exchange1) ?quote = Inr gross_euro"
    and ie: "convert_to_euro self (?v * ask_price df_exchange1) ?quote = Inr initial_euro"
    and r: "max_initial_amount_euro r = initial_euro" "gross_profit_euro r = gross_euro"
    by (auto simp: profitability_calculator_def Let_def bind_err_Inr lookup_name_Inr
        lookup_key_Inr max_volume_def calculate_trade_amounts_def calculate_profits_def
        adjust_for_withdrawal_def split: option.splits)
  from ge ie obtain rate where "euro_values self ?quote = Some rate"
    "gross_euro = (?v * (1 - taker ex1) * bid_price df_exchange2 * (1 - taker ex2)
                 - ?v * ask_price df_exchange1) * rate"
    "initial_euro = ?v * ask_price df_exchange1 * rate"
    by (auto simp: convert_to_euro_Inr)
  with n1 e1 n2 e2 r show ?thesis by blast
qed

theorem trade_volume_is_uncapped_minimum_witness:
  "\<exists>exchange_name1 exchange_name2 ex1 ex2 rate.
       g_exchange_name1 example_globals = Some exchange_name1
     \<and> exchanges example_calculator exchange_name1 = Some ex1
     \<and> g_exchange_name2 example_globals = Some exchange_name2
     \<and> exchanges example_calculator exchange_name2 = Some ex2
     \<and> euro_values example_calculator ''BTC'' = Some rate
     \<and> (12000000::real) = min 2000 3000 * 1 * rate
     \<and> (12000000::real)
         = (min 2000 3000 * (1 - taker ex1) * 2 * (1 - taker ex2) - min 2000 3000 * 1) * rate"
proof -
  have p: "profitability_calculator example_globals example_calculator
       (example_row ''ETH/BTC_kraken'' 1 2000 1 0) (example_row ''ETH/BTC_bitstamp'' 1 0 2 3000)
       example_exchange example_exchange
     = Inr \<lparr> max_initial_amount_euro = 12000000, max_initial_amount_btc = 2000,
             gross_profit_euro = 12000000, gross_profit_btc = 2000,
             percent_gross_profit = Finite 100, net_profit_euro = Some 12000000,
             net_profit_btc = Some 2000, percent_net_profit = Some (Finite 100),
             buy_exchange = ''kraken'', sell_exchange = ''bitstamp'',
             result_timestamp = 1000 \<rparr>"
    by (simp add: calculator_defs example_defs)
  from trade_volume_is_uncapped_minimum [OF p] show ?thesis
    by (simp add: example_row_def)
qed

text \<open>
  Claim C4, as stated: with zero elapsed time or an empty series the normalised value is
  reported as undefined, without an error. As the module stands the call raises NameError;
  with the conversion resolved to \<open>convert_time_to_minutes\<close>, a scan whose samples all fall
  in the same second raises ZeroDivisionError and a scan with no sample raises IndexError.
\<close>

theorem zero_elapsed_counterexample:
  "backtest_results backtester_globals
     (table [refined_at 0 1 100, refined_at 1000 1 100, refined_at 2000 1 100]) 0
     = Inl (NameError ''convert_seconds_to_minutes'')
   \<and> backtest_results repaired_globals
     (table [refined_at 0 1 100, refined_at 1000 1 100, refined_at 2000 1 100]) 0
     = Inl ZeroDivisionError
   \<and> backtest_results repaired_globals (table [refined_at 0 1 100]) 0 = Inl IndexError"
  by (simp add: backtest_defs scan_defs repaired_globals_def table_def refined_at_def)

text \<open>
  Claim C4, amended. When the conversion call of line 96 resolves to
  \<open>convert_time_to_minutes\<close> and the scan completes, the cumulative profit is normalised as
  \<open>raw_cumulative_profit \<times> (1440 / elapsed_minutes_total)\<close>, where \<open>elapsed_minutes_total\<close> is
  the last sample's elapsed-minute value; when that value is zero the call raises
  ZeroDivisionError and when the series is empty it raises IndexError.
\<close>

theorem normalization:
  assumes "g ''convert_seconds_to_minutes'' = Some convert_time_to_minutes"
    and "2 + direction < length (split_on CHR ''_'' (df_name df))"
    and "scan (rows df) = Inr (sel, pot)"
  shows "(time pot = [] \<longrightarrow> backtest_results g df direction = Inl IndexError)
       \<and> (time pot \<noteq> [] \<longrightarrow>
            (let minutes =
                   map (\<lambda>t. py_round_ndigits (real_of_int (t - hd (time pot)) / 60) 2) (time pot);
                 minutes_elapsed = last minutes
             in if minutes_elapsed = 0
                then backtest_results g df direction = Inl ZeroDivisionError
                else backtest_results g df direction
                       = Inr \<lparr> out_profit = profit pot,
                               out_time = minutes,
                               out_cumulative_profit =
                                 cumulative_profit pot * (1440 / minutes_elapsed) \<rparr>))"
  using assms
  by (cases "time pot")
     (simp_all add: backtest_results_def lookup_name_def py_index_def convert_time_to_minutes_def
        py_last_def py_div_def Let_def)

theorem normalization_witness:
  "backtest_results repaired_globals (table day_rows) 0
     = Inr \<lparr> out_profit = [100], out_time = [0, 720], out_cumulative_profit = 200 \<rparr>"
proof -
  have g: "repaired_globals ''convert_seconds_to_minutes'' = Some convert_time_to_minutes"
    by (simp add: repaired_globals_def)
  have n: "2 + 0 < length (split_on CHR ''_'' (df_name (table day_rows)))"
    by (simp add: table_def)
  have s: "scan (rows (table day_rows))
             = Inr (\<lparr> full_dataframe = day_rows, finished = True, index = 2,
                      row = Some (refined_at 43200001 0 1) \<rparr>,
                    \<lparr> profit = [100], time = [0, 43200], cumulative_profit = 100 \<rparr>)"
    by (simp add: scan_defs table_def day_rows_def refined_at_def)
  from normalization [where g = repaired_globals and direction = 0 and df = "table day_rows",
      OF g n s]
  show ?thesis
    by (simp add: py_round_ndigits_def py_round_def)
qed

text \<open>
  Claim C5, as stated: after a trade realised at a record with time \<open>T\<close>, no trade is
  realised at a record whose time lies strictly inside \<open>(T, T + cooldown_duration)\<close>. The
  first row of the table lies at 0.5 s and is traded; the cooldown is counted from its time
  rounded to whole seconds, 0 s, so the cursor stops at the row at 5400 s, which is traded
  too, 5399.5 s after the first trade.
\<close>

theorem half_second_counterexample:
  "loop_body half_second_state
     = Inr (\<lparr> full_dataframe = half_second_rows, finished = False, index = 3,
              row = Some (refined_at 5400000 7 7) \<rparr>,
            \<lparr> profit = [100], time = [0], cumulative_profit = 100 \<rparr>)
   \<and> scan half_second_rows
     = Inr (\<lparr> full_dataframe = half_second_rows, finished = True, index = 5,
              row = Some (refined_at 20000001 1 1) \<rparr>,
            \<lparr> profit = [100, 49, 1], time = [0, 5400, 20000], cumulative_profit = 150 \<rparr>)
   \<and> minimum_profit < capped_profit (refined_at 500 1 100)
   \<and> minimum_profit < capped_profit (refined_at 5400000 7 7)
   \<and> real_of_int (row_timestamp (refined_at 500 1 100)) / 1000
       < real_of_int (row_timestamp (refined_at 5400000 7 7)) / 1000
   \<and> real_of_int (row_timestamp (refined_at 5400000 7 7)) / 1000
       < real_of_int (row_timestamp (refined_at 500 1 100)) / 1000 + real_of_int waiting_time"
  by (simp add: scan_defs half_second_state_def half_second_rows_def refined_at_def)

text \<open>
  Claim C5, amended. Let a trade be realised at a record \<open>r\<close> of an input ordered by
  timestamp, and let \<open>T\<close> be its time rounded to whole seconds as the simulator records it
  (\<open>time_of_result\<close>, within half a second of the timestamp). The cursor then skips to the
  first subsequent record whose timestamp is at or after \<open>T + cooldown_duration\<close> (or the
  scan finishes): every record in between lies before that bound and is never evaluated.
  Every record evaluated later in the scan lies at or after \<open>T + cooldown_duration\<close>, hence
  at least \<open>cooldown_duration\<close> less half a second after the timestamp of \<open>r\<close>.
\<close>

theorem cooldown_after_trade:
  assumes ordered: "sorted (map row_timestamp df)"
    and reach: "scan_reaches df st"
    and nf: "\<not> finished (fst st)"
    and r: "row (fst st) = Some r"
    and realized: "minimum_profit < capped_profit r"
  shows "r = df ! (index (fst st) - 1)
       \<and> (\<exists>st1. loop_body st = Inr st1
            \<and> (finished (fst st1) \<or>
                 (\<exists>j. index (fst st) \<le> j \<and> j < length df \<and> row (fst st1) = Some (df ! j)
                    \<and> real_of_int (time_of_result r + waiting_time)
                         \<le> real_of_int (row_timestamp (df ! j)) / 1000
                    \<and> (\<forall>i. index (fst st) \<le> i \<and> i < j \<longrightarrow>
                          real_of_int (row_timestamp (df ! i)) / 1000
                            < real_of_int (time_of_result r + waiting_time)))))
       \<and> (\<forall>st' r'. scan_step\<^sup>+\<^sup>+ st st' \<and> \<not> finished (fst st') \<and> row (fst st') = Some r' \<longrightarrow>
             real_of_int (time_of_result r + waiting_time) \<le> real_of_int (row_timestamp r') / 1000
             \<and> time_of_result r + waiting_time \<le> time_of_result r'
             \<and> real_of_int (row_timestamp r) / 1000 + real_of_int waiting_time - 1 / 2
                   \<le> real_of_int (row_timestamp r') / 1000)
       \<and> real_of_int (row_timestamp r) / 1000 - 1 / 2 \<le> real_of_int (time_of_result r)
       \<and> real_of_int (time_of_result r) \<le> real_of_int (row_timestamp r) / 1000 + 1 / 2"
proof -
  let ?sel = "fst st"
  let ?bound = "time_of_result r + waiting_time"
  from scan_reaches_invariant [OF reach] nf
  have df: "full_dataframe ?sel = df" and on: "on_row ?sel" by simp_all
  from on r df have r_eq: "r = df ! (index ?sel - 1)" by (simp add: on_row_def)
  from get_next_row_after_time_on_row [OF on nf waiting_time_pos] df r_eq
  obtain sel' where
    g: "get_next_row_after_time ?sel waiting_time = Inr sel'"
    and df': "full_dataframe sel' = df"
    and p: "finished sel' \<or>
             (on_row sel' \<and> index ?sel < index sel'
              \<and> real_of_int ?bound \<le> real_of_int (row_timestamp (df ! (index sel' - 1))) / 1000
              \<and> (\<forall>i. index ?sel \<le> i \<and> i < index sel' - 1 \<longrightarrow>
                    real_of_int (row_timestamp (df ! i)) / 1000 < real_of_int ?bound))"
    by auto
  define pot where "pot = (snd st)\<lparr>time := time (snd st) @ [time_of_result r]\<rparr>"
  define st1 where "st1 = (sel', pot\<lparr>profit := profit pot @ [capped_profit r],
      cumulative_profit := cumulative_profit pot + capped_profit r\<rparr>)"
  from r realized g have body: "loop_body st = Inr st1"
    by (simp add: loop_body_def Let_def st1_def pot_def)
  have sel1: "fst st1 = sel'" by (simp add: st1_def)
  have first: "finished (fst st1) \<or>
                 (\<exists>j. index ?sel \<le> j \<and> j < length df \<and> row (fst st1) = Some (df ! j)
                    \<and> real_of_int ?bound \<le> real_of_int (row_timestamp (df ! j)) / 1000
                    \<and> (\<forall>i. index ?sel \<le> i \<and> i < j \<longrightarrow>
                          real_of_int (row_timestamp (df ! i)) / 1000 < real_of_int ?bound))"
  proof (cases "finished sel'")
    case True
    with sel1 show ?thesis by simp
  next
    case False
    with p have q: "on_row sel'" "index ?sel < index sel'"
      "real_of_int ?bound \<le> real_of_int (row_timestamp (df ! (index sel' - 1))) / 1000"
      "\<forall>i. index ?sel \<le> i \<and> i < index sel' - 1 \<longrightarrow>
          real_of_int (row_timestamp (df ! i)) / 1000 < real_of_int ?bound"
      by simp_all
    from q(1) df' have "index sel' - 1 < length df" "row sel' = Some (df ! (index sel' - 1))"
      by (auto simp: on_row_def)
    moreover from q(2) have "index ?sel \<le> index sel' - 1" by simp
    ultimately show ?thesis using q(3,4) sel1 by blast
  qed
  have half: "real_of_int (row_timestamp r) / 1000 - 1 / 2 \<le> real_of_int (time_of_result r)
      \<and> real_of_int (time_of_result r) \<le> real_of_int (row_timestamp r) / 1000 + 1 / 2"
    using py_round_half [of "real_of_int (row_timestamp r) / 1000"]
    by (simp only: time_of_result_def)
  have later: "real_of_int ?bound \<le> real_of_int (row_timestamp r') / 1000
             \<and> ?bound \<le> time_of_result r'
             \<and> real_of_int (row_timestamp r) / 1000 + real_of_int waiting_time - 1 / 2
                   \<le> real_of_int (row_timestamp r') / 1000"
    if steps: "scan_step\<^sup>+\<^sup>+ st st'" and nf': "\<not> finished (fst st')"
      and r': "row (fst st') = Some r'" for st' r'
  proof -
    from tranclpD [OF steps] obtain z where z: "scan_step st z" "scan_step\<^sup>*\<^sup>* z st'" by blast
    from z(1) body have "z = st1" by (simp add: scan_step_def)
    with z(2) have rest: "scan_step\<^sup>*\<^sup>* st1 st'" by simp
    have nf1: "\<not> finished sel'"
    proof
      assume fin: "finished sel'"
      from rest have "st' = st1"
      proof (cases rule: converse_rtranclpE)
        case base
        then show ?thesis by simp
      next
        case (step y)
        with fin sel1 show ?thesis by (simp add: scan_step_def)
      qed
      with fin sel1 nf' show False by simp
    qed
    with p have q: "on_row sel'"
      "real_of_int ?bound \<le> real_of_int (row_timestamp (df ! (index sel' - 1))) / 1000"
      by simp_all
    have pos: "on_row (fst st') \<and> index sel' \<le> index (fst st') \<and> full_dataframe (fst st') = df"
    proof (cases "st1 = st'")
      case True
      with q(1) sel1 df' show ?thesis by auto
    next
      case False
      with rest have "scan_step\<^sup>+\<^sup>+ st1 st'" by (auto dest: rtranclpD)
      from scan_steps_index [OF this] q(1) sel1 nf' df' show ?thesis by simp
    qed
    with r' have r'_eq: "r' = df ! (index (fst st') - 1)" and lt: "index (fst st') - 1 < length df"
      by (auto simp: on_row_def)
    from pos have le: "index sel' - 1 \<le> index (fst st') - 1" by (simp add: diff_le_mono)
    from sorted_nth_mono [OF ordered, of "index sel' - 1" "index (fst st') - 1"] le lt
    have "row_timestamp (df ! (index sel' - 1)) \<le> row_timestamp r'"
      by (simp add: r'_eq)
    with q(2) have b: "real_of_int ?bound \<le> real_of_int (row_timestamp r') / 1000"
      by (simp add: divide_le_cancel order_trans [OF q(2)])
    from py_round_ge_int [OF b] have "?bound \<le> time_of_result r'"
      by (simp only: time_of_result_def)
    moreover from b half
    have "real_of_int (row_timestamp r) / 1000 + real_of_int waiting_time - 1 / 2
            \<le> real_of_int (row_timestamp r') / 1000"
      by simp
    ultimately show ?thesis using b by simp
  qed
  from r_eq body first later half show ?thesis by blast
qed

theorem cooldown_after_trade_witness:
  "(sorted (map row_timestamp cooldown_rows)
    \<and> scan_reaches cooldown_rows cooldown_state
    \<and> \<not> finished (fst cooldown_state)
    \<and> row (fst cooldown_state) = Some (refined_at 1500 1 100)
    \<and> minimum_profit < capped_profit (refined_at 1500 1 100))
   \<and> scan_step\<^sup>+\<^sup>+ cooldown_state
        (\<lparr> full_dataframe = cooldown_rows, finished = False, index = 4,
           row = Some (refined_at 5402000 7 7) \<rparr>,
         \<lparr> profit = [100], time = [2], cumulative_profit = 100 \<rparr>)
   \<and> time_of_result (refined_at 1500 1 100) + waiting_time = 5402
   \<and> real_of_int (time_of_result (refined_at 1500 1 100) + waiting_time)
       \<le> real_of_int (row_timestamp (refined_at 5402000 7 7)) / 1000
   \<and> time_of_result (refined_at 1500 1 100) + waiting_time
       \<le> time_of_result (refined_at 5402000 7 7)
   \<and> real_of_int (row_timestamp (refined_at 1500 1 100)) / 1000 + real_of_int waiting_time - 1 / 2
       \<le> real_of_int (row_timestamp (refined_at 5402000 7 7)) / 1000"
proof -
  let ?next = "(\<lparr> full_dataframe = cooldown_rows, finished = False, index = 4,
                  row = Some (refined_at 5402000 7 7) \<rparr>,
                \<lparr> profit = [100], time = [2], cumulative_profit = 100 \<rparr>)"
  have h1: "sorted (map row_timestamp cooldown_rows)"
    by (simp add: cooldown_rows_def refined_at_def)
  have "get_next_row (new_data_selector cooldown_rows) = Inr (fst cooldown_state)"
    by (simp add: get_next_row_def new_data_selector_def cooldown_state_def cooldown_rows_def)
  from scan_reaches.first_row [OF this]
  have h2: "scan_reaches cooldown_rows cooldown_state"
    by (simp add: cooldown_state_def)
  have h3: "\<not> finished (fst cooldown_state)"
    by (simp add: cooldown_state_def)
  have h4: "row (fst cooldown_state) = Some (refined_at 1500 1 100)"
    by (simp add: cooldown_state_def)
  have h5: "minimum_profit < capped_profit (refined_at 1500 1 100)"
    by (simp add: minimum_profit_def capped_profit_def max_trade_volume_def refined_at_def)
  have t: "time_of_result (refined_at 1500 1 100) + waiting_time = 5402"
    by (simp add: time_of_result_def py_round_def waiting_time_def waiting_time_minutes_def
        refined_at_def)
  have "scan_step cooldown_state ?next"
    using h3 cooldown_rows_skip by (simp add: scan_step_def)
  then have steps: "scan_step\<^sup>+\<^sup>+ cooldown_state ?next" ..
  from cooldown_after_trade [OF h1 h2 h3 h4 h5]
  have "\<forall>st' r'. scan_step\<^sup>+\<^sup>+ cooldown_state st' \<and> \<not> finished (fst st')
            \<and> row (fst st') = Some r' \<longrightarrow>
          real_of_int (time_of_result (refined_at 1500 1 100) + waiting_time)
            \<le> real_of_int (row_timestamp r') / 1000
          \<and> time_of_result (refined_at 1500 1 100) + waiting_time \<le> time_of_result r'
          \<and> real_of_int (row_timestamp (refined_at 1500 1 100)) / 1000
                + real_of_int waiting_time - 1 / 2
              \<le> real_of_int (row_timestamp r') / 1000"
    by (elim conjE)
  from this [rule_format, of ?next "refined_at 5402000 7 7"] steps
  have "real_of_int (time_of_result (refined_at 1500 1 100) + waiting_time)
            \<le> real_of_int (row_timestamp (refined_at 5402000 7 7)) / 1000
          \<and> time_of_result (refined_at 1500 1 100) + waiting_time
            \<le> time_of_result (refined_at 5402000 7 7)
          \<and> real_of_int (row_timestamp (refined_at 1500 1 100)) / 1000
                + real_of_int waiting_time - 1 / 2
              \<le> real_of_int (row_timestamp (refined_at 5402000 7 7)) / 1000"
    by simp
  with h1 h2 h3 h4 h5 steps t show ?thesis by blast
qed

text \<open>
  Claim C6, as stated: two streams of one snapshot each, both at 1000 ms, tolerance
  60000 ms, give exactly one aligned pair. The run gives no pair: the row read is the last
  one of its frame, so the selector finishes before the timestamps are compared.
\<close>

theorem single_row_streams_counterexample:
  "synchronize [snapshot_at 1000] [snapshot_at 1000] 60000 = Inr []
   \<and> synchronize [snapshot_at 1000] [snapshot_at 1000] 60000
       \<noteq> Inr [(snapshot_at 1000, snapshot_at 1000)]"
  by (simp add: synchronize_def new_selector_def emitted_pairs.simps get_next_row_pair.simps
      is_last_row_def)

text \<open>
  Claim C6, amended. With exactly one snapshot in each stream, both at 1000 ms and
  tolerance 60000 ms, the synchroniser emits no pair; the pair at 1000 ms is the first one
  emitted as soon as each stream holds at least one further snapshot.
\<close>

theorem last_row_never_paired:
  assumes "timestamp a = 1000" and "timestamp b = 1000"
  shows "synchronize [a] [b] 60000 = Inr []
       \<and> (\<exists>rest. synchronize (a # a' # as) (b # b' # bs) 60000 = Inr ((a, b) # rest))"
proof -
  have one: "synchronize [a] [b] 60000 = Inr []"
    by (simp add: synchronize_def new_selector_def emitted_pairs.simps get_next_row_pair.simps
        is_last_row_def)
  let ?s = "new_selector (a # a' # as) (b # b' # bs) 60000"
  let ?s' = "?s\<lparr>index1 := 1, index2 := 1\<rparr>"
  have step: "get_next_row_pair ?s = Inr (RowPair a b, ?s')"
    using assms
    by (simp add: new_selector_def get_next_row_pair.simps is_last_row_def)
  have unfold: "synchronize (a # a' # as) (b # b' # bs) 60000 = emitted_pairs ?s' [(a, b)]"
    unfolding synchronize_def
    by (subst emitted_pairs.simps) (simp add: step, simp add: new_selector_def)
  have "\<exists>ps. emitted_pairs ?s' [(a, b)] = Inr ps"
    by (rule emitted_pairs_total) (simp_all add: new_selector_def)
  then obtain ps where ps: "emitted_pairs ?s' [(a, b)] = Inr ps" ..
  from emitted_pairs_prefix [OF ps] obtain rest where "ps = [(a, b)] @ rest" ..
  with ps unfold have "synchronize (a # a' # as) (b # b' # bs) 60000 = Inr ((a, b) # rest)"
    by simp
  with one show ?thesis by blast
qed

theorem last_row_never_paired_witness:
  "timestamp (snapshot_at 1000) = 1000
   \<and> synchronize [snapshot_at 1000] [snapshot_at 1000] 60000 = Inr []
   \<and> (\<exists>rest. synchronize [snapshot_at 1000, snapshot_at 2000]
                 [snapshot_at 1000, snapshot_at 2000] 60000
               = Inr ((snapshot_at 1000, snapshot_at 1000) # rest))"
proof -
  have h: "timestamp (snapshot_at 1000) = 1000" by (simp add: snapshot_at_def)
  from last_row_never_paired [OF h h, of "snapshot_at 2000" "[]" "snapshot_at 2000" "[]"] h
  show ?thesis by simp
qed

text \<open>
  Claim C7. Every pair the synchroniser emits satisfies the tolerance bound strictly:
  \<open>|timestamp_a - timestamp_b| < tolerance\<close>; its rows come from the first and the second
  stream respectively.
\<close>

theorem emitted_pairs_within_tolerance:
  assumes "synchronize d1 d2 tol = Inr ps" and "(a, b) \<in> set ps"
  shows "\<bar>timestamp a - timestamp b\<bar> < tol \<and> a \<in> set d1 \<and> b \<in> set d2"
proof -
  from assms(1) have e: "emitted_pairs (new_selector d1 d2 tol) [] = Inr ps"
    by (simp add: synchronize_def)
  from emitted_pairs_tolerance [OF e] assms(2) show ?thesis
    by (fastforce simp: new_selector_def)
qed

theorem emitted_pairs_within_tolerance_witness:
  "synchronize [snapshot_at 1000, snapshot_at 2000] [snapshot_at 1500, snapshot_at 2500] 60000
     = Inr [(snapshot_at 1000, snapshot_at 1500)]
   \<and> \<bar>timestamp (snapshot_at 1000) - timestamp (snapshot_at 1500)\<bar> < 60000"
proof -
  have h: "synchronize [snapshot_at 1000, snapshot_at 2000]
             [snapshot_at 1500, snapshot_at 2500] 60000
           = Inr [(snapshot_at 1000, snapshot_at 1500)]"
    by (simp add: synchronize_def new_selector_def emitted_pairs.simps get_next_row_pair.simps
        is_last_row_def snapshot_at_def)
  from emitted_pairs_within_tolerance [OF h, of "snapshot_at 1000" "snapshot_at 1500"] h
  show ?thesis by simp
qed

text \<open>
  Claim C8: the synchroniser emits at most \<open>min(len(seq_a), len(seq_b))\<close> pairs, and with an
  empty input it emits zero pairs and ends without an error. Evaluated on the code with an
  empty first or second stream: no pair is emitted, and the first call raises IndexError,
  because the current rows are read before the last-row test.
\<close>

theorem empty_stream_raises:
  "synchronize [] [snapshot_at 1000] 60000 = Inl IndexError
   \<and> synchronize [snapshot_at 1000] [] 60000 = Inl IndexError
   \<and> synchronize [] [snapshot_at 1000] 60000 \<noteq> Inr []"
  by (simp add: synchronize_def new_selector_def emitted_pairs.simps get_next_row_pair.simps)

text \<open>
  Claim C9. For every list of levels on one side of the book, the aggregator computes the
  total volume and the weighted price \<open>\<Sum>(price\<sdot>volume) / \<Sum>(volume)\<close> over the top three
  levels, the weighted price being 0 when that total volume is 0; the computation never
  raises, so the division is not performed on a zero volume. The snapshot built by
  \<open>calculate_weighted_prices\<close> holds these values for bids and asks, rounded to the
  precision of the instrument.
\<close>

theorem weighted_price_top3:
  "calculate_volume_and_weighted_price (take 3 levels) =
     Inr ((\<Sum>l\<leftarrow>take 3 levels. snd l), weighted_mean (take 3 levels))
   \<and> calculate_weighted_prices \<lparr>bids = bs, asks = as\<rparr> prec ts =
     Inr \<lparr> timestamp = ts,
           bid_price = py_round_ndigits (weighted_mean (take 3 bs)) (price prec),
           bid_volume = py_round_ndigits (\<Sum>l\<leftarrow>take 3 bs. snd l) (amount prec),
           ask_price = py_round_ndigits (weighted_mean (take 3 as)) (price prec),
           ask_volume = py_round_ndigits (\<Sum>l\<leftarrow>take 3 as. snd l) (amount prec) \<rparr>"
proof -
  have v: "calculate_volume_and_weighted_price orders =
      Inr ((\<Sum>l\<leftarrow>orders. snd l), weighted_mean orders)" for orders
    by (simp add: calculate_volume_and_weighted_price_def py_sum_sum_list py_div_def
        weighted_mean_def Let_def)
  show ?thesis
    by (simp add: calculate_weighted_prices_def v)
qed

text \<open>
  Claim C10. \<open>backtest_results\<close> never returns normally: with the module's own globals
  every call ends in an exception, and for every table with at least one row and a name
  with enough \<open>_\<close>-separated parts, so that the scanning loop completes, that exception is
  the NameError for \<open>convert_seconds_to_minutes\<close>, a name the module does not define.
\<close>

theorem never_returns_normally:
  "(\<exists>e. backtest_results backtester_globals df direction = Inl e)
   \<and> (rows df \<noteq> [] \<and> 2 + direction < length (split_on CHR ''_'' (df_name df)) \<longrightarrow>
        backtest_results backtester_globals df direction
          = Inl (NameError ''convert_seconds_to_minutes''))"
proof
  have unbound: "backtester_globals ''convert_seconds_to_minutes'' = None"
    by (simp add: backtester_globals_def)
  show "\<exists>e. backtest_results backtester_globals df direction = Inl e"
    by (cases "py_index (split_on CHR ''_'' (df_name df)) (2 + direction)";
        cases "scan (rows df)")
       (simp_all add: backtest_results_def unbound lookup_name_def)
  show "rows df \<noteq> [] \<and> 2 + direction < length (split_on CHR ''_'' (df_name df)) \<longrightarrow>
        backtest_results backtester_globals df direction
          = Inl (NameError ''convert_seconds_to_minutes'')"
  proof
    assume a: "rows df \<noteq> [] \<and> 2 + direction < length (split_on CHR ''_'' (df_name df))"
    then obtain st where "scan (rows df) = Inr st" using scan_total by blast
    with a show "backtest_results backtester_globals df direction
          = Inl (NameError ''convert_seconds_to_minutes'')"
      by (simp add: backtest_results_def unbound lookup_name_def py_index_def)
  qed
qed

theorem never_returns_normally_witness:
  "backtest_results backtester_globals (table day_rows) 0
     = Inl (NameError ''convert_seconds_to_minutes'')"
  using never_returns_normally [of "table day_rows" 0]
  by (simp add: table_def day_rows_def)

end
